theory Spec2Isabelle
  imports Complex_Main
begin

section \<open>Errors raised by the transformation functions\<close>

text \<open>
  Every \<^verbatim>\<open>raise\<close> of \<^verbatim>\<open>sunpy/coordinates/transformations.py\<close> is a value of
  \<open>error\<close>.  \<open>ValueError\<close> and \<open>ConvertError\<close> carry the name of the function whose
  body raises them, which stands for the message text.  \<open>AttributeError\<close> is what Python
  raises when an attribute is read from an object that does not have it (the argument is the
  attribute's name); \<open>UnitConversionError\<close> is what the units library raises when a quantity
  is converted to a unit of another physical dimension.
\<close>

datatype error =
    ValueError string
  | ConvertError string
  | AttributeError string
  | UnitConversionError

definition ebind :: "error + 'a \<Rightarrow> ('a \<Rightarrow> error + 'b) \<Rightarrow> error + 'b" where
  "ebind m k = (case m of Inl e \<Rightarrow> Inl e | Inr v \<Rightarrow> k v)"

section \<open>Quantities with units\<close>

text \<open>
  Floating-point numbers are modelled by real numbers.  An angle (the library's
  \<^verbatim>\<open>Angle\<close>, \<^verbatim>\<open>Longitude\<close>, \<^verbatim>\<open>Latitude\<close>) is a magnitude with an angular unit;
  a \<open>Quantity\<close> is a magnitude with a unit that is either dimensionless (\<^verbatim>\<open>u.one\<close>) or a
  length.  Arithmetic between two quantities converts the right operand to the unit of the
  left one, as the units library does.
\<close>

datatype angle_unit = Rad | Deg | Arcsec

fun ascale :: "angle_unit \<Rightarrow> real" where
  "ascale Rad = 1"
| "ascale Deg = pi / 180"
| "ascale Arcsec = pi / 648000"

datatype Angle = Angle (a_mag: real) (a_unit: angle_unit)

definition radians :: "Angle \<Rightarrow> real" where
  "radians a = a_mag a * ascale (a_unit a)"

definition degrees :: "Angle \<Rightarrow> real" where
  "degrees a = radians a * 180 / pi"

definition a_to :: "Angle \<Rightarrow> angle_unit \<Rightarrow> Angle" where
  "a_to a u = Angle (a_mag a * ascale (a_unit a) / ascale u) u"

definition a_add :: "Angle \<Rightarrow> Angle \<Rightarrow> Angle" where
  "a_add a b = Angle (a_mag a + a_mag (a_to b (a_unit a))) (a_unit a)"

definition a_sub :: "Angle \<Rightarrow> Angle \<Rightarrow> Angle" where
  "a_sub a b = Angle (a_mag a - a_mag (a_to b (a_unit a))) (a_unit a)"

definition np_deg2rad :: "Angle \<Rightarrow> Angle" where
  "np_deg2rad a = Angle (a_mag (a_to a Deg) * pi / 180) Rad"

definition np_rad2deg :: "Angle \<Rightarrow> Angle" where
  "np_rad2deg a = Angle (a_mag (a_to a Rad) * 180 / pi) Deg"

definition np_cos :: "Angle \<Rightarrow> real" where
  "np_cos a = cos (a_mag (a_to a Rad))"

definition np_sin :: "Angle \<Rightarrow> real" where
  "np_sin a = sin (a_mag (a_to a Rad))"

definition np_arcsin :: "real \<Rightarrow> Angle" where
  "np_arcsin v = Angle (arcsin v) Rad"

text \<open>
  Modelled from the library: a \<^verbatim>\<open>Longitude\<close> is an angle kept in the range from its wrap
  angle less \<open>360\<close> degrees (included) to its wrap angle (excluded).  \<^verbatim>\<open>Longitude._wrap_at\<close>
  works in the unit of the angle: with \<open>a360\<close> the full turn in that unit, it subtracts
  from the angle \<open>a360\<close> times the floor of \<open>(angle - (wrap_angle - a360)) / a360\<close>.
\<close>

fun a360 :: "angle_unit \<Rightarrow> real" where
  "a360 Rad = 2 * pi"
| "a360 Deg = 360"
| "a360 Arcsec = 1296000"

definition wrap_at :: "Angle \<Rightarrow> Angle \<Rightarrow> Angle" where
  "wrap_at wrap_angle a =
     (let wrap_angle_floor = a_mag (a_to wrap_angle (a_unit a)) - a360 (a_unit a);
          wraps = of_int \<lfloor>(a_mag a - wrap_angle_floor) / a360 (a_unit a)\<rfloor>
      in Angle (a_mag a - wraps * a360 (a_unit a)) (a_unit a))"

text \<open>
  \<^verbatim>\<open>numpy.arctan2(x1, x2)\<close> is the angle of the point with abscissa \<open>x2\<close> and ordinate
  \<open>x1\<close>, in \<open>(-\<pi>, \<pi>]\<close> (the C library's \<^verbatim>\<open>atan2\<close>; signed zeros are not modelled).
\<close>

definition arctan2 :: "real \<Rightarrow> real \<Rightarrow> real" where
  "arctan2 x1 x2 =
     (if 0 < x2 then arctan (x1 / x2)
      else if x2 < 0 \<and> 0 \<le> x1 then arctan (x1 / x2) + pi
      else if x2 < 0 then arctan (x1 / x2) - pi
      else if 0 < x1 then pi / 2
      else if x1 < 0 then - (pi / 2)
      else 0)"

datatype qunit = One | M | Km | AU

datatype dimension = Dimensionless | Length

fun dimension_of :: "qunit \<Rightarrow> dimension" where
  "dimension_of One = Dimensionless"
| "dimension_of M = Length"
| "dimension_of Km = Length"
| "dimension_of AU = Length"

fun qscale :: "qunit \<Rightarrow> real" where
  "qscale One = 1"
| "qscale M = 1"
| "qscale Km = 1000"
| "qscale AU = 149597870700"

datatype Quantity = Quantity (q_mag: real) (q_unit: qunit)

definition metres :: "Quantity \<Rightarrow> real" where
  "metres q = q_mag q * qscale (q_unit q)"

definition q_to :: "Quantity \<Rightarrow> qunit \<Rightarrow> error + Quantity" where
  "q_to q u =
     (if dimension_of (q_unit q) = dimension_of u
      then Inr (Quantity (q_mag q * qscale (q_unit q) / qscale u) u)
      else Inl UnitConversionError)"

definition q_add :: "Quantity \<Rightarrow> Quantity \<Rightarrow> error + Quantity" where
  "q_add a b = ebind (q_to b (q_unit a)) (\<lambda>b'. Inr (Quantity (q_mag a + q_mag b') (q_unit a)))"

definition q_sub :: "Quantity \<Rightarrow> Quantity \<Rightarrow> error + Quantity" where
  "q_sub a b = ebind (q_to b (q_unit a)) (\<lambda>b'. Inr (Quantity (q_mag a - q_mag b') (q_unit a)))"

text \<open>A quantity times a plain number (the cosines and sines are dimensionless).\<close>

definition q_scale :: "Quantity \<Rightarrow> real \<Rightarrow> Quantity" where
  "q_scale q r = Quantity (q_mag q * r) (q_unit q)"

text \<open>The ratio of two quantities of one dimension, as a plain number.\<close>

definition q_ratio :: "Quantity \<Rightarrow> Quantity \<Rightarrow> error + real" where
  "q_ratio a b = ebind (q_to b (q_unit a)) (\<lambda>b'. Inr (q_mag a / q_mag b'))"

text \<open>\<^verbatim>\<open>np.sqrt(a**2 + b**2 + c**2)\<close>: the sum is taken in the unit of \<open>a\<close>.\<close>

definition np_sqrt_sum_squares :: "Quantity \<Rightarrow> Quantity \<Rightarrow> Quantity \<Rightarrow> error + Quantity" where
  "np_sqrt_sum_squares a b c =
     ebind (q_to b (q_unit a)) (\<lambda>b'.
     ebind (q_to c (q_unit a)) (\<lambda>c'.
       Inr (Quantity (sqrt ((q_mag a)\<^sup>2 + (q_mag b')\<^sup>2 + (q_mag c')\<^sup>2)) (q_unit a))))"

definition np_arctan2 :: "Quantity \<Rightarrow> Quantity \<Rightarrow> error + Angle" where
  "np_arctan2 a b = ebind (q_to b (q_unit a)) (\<lambda>b'. Inr (Angle (arctan2 (q_mag a) (q_mag b')) Rad))"

text \<open>
  \<^verbatim>\<open>u.allclose(a, b)\<close> with its default tolerances: \<open>b\<close> is converted to the unit of \<open>a\<close>
  and the magnitudes are compared with relative tolerance \<open>10\<^sup>-\<^sup>5\<close> and absolute
  tolerance \<open>0\<close>.
\<close>

definition rtol :: real where
  "rtol = 1 / 100000"

definition a_allclose :: "Angle \<Rightarrow> Angle \<Rightarrow> bool" where
  "a_allclose a b = (\<bar>a_mag a - a_mag (a_to b (a_unit a))\<bar> \<le> rtol * \<bar>a_mag (a_to b (a_unit a))\<bar>)"

definition q_allclose :: "Quantity \<Rightarrow> Quantity \<Rightarrow> error + bool" where
  "q_allclose a b =
     ebind (q_to b (q_unit a)) (\<lambda>b'. Inr (\<bar>q_mag a - q_mag b'\<bar> \<le> rtol * \<bar>q_mag b'\<bar>))"

section \<open>Observers, frames, coordinates\<close>

text \<open>
  An observer is either a label (a string such as \<^verbatim>\<open>"earth"\<close>, which the frame could not
  resolve for want of an observation time) or a coordinate frame object with latitude,
  longitude and radius; \<open>isinstance_BaseCoordinateFrame\<close> tells them apart.
\<close>

datatype observer =
    Label string
  | Observer Angle Angle Quantity

fun isinstance_BaseCoordinateFrame :: "observer \<Rightarrow> bool" where
  "isinstance_BaseCoordinateFrame (Label s) = False"
| "isinstance_BaseCoordinateFrame (Observer b l r) = True"

text \<open>Reading \<^verbatim>\<open>.lat\<close>, \<^verbatim>\<open>.lon\<close>, \<^verbatim>\<open>.radius\<close> of an observer; a string has none of them.\<close>

fun attr_lat :: "observer \<Rightarrow> error + Angle" where
  "attr_lat (Label s) = Inl (AttributeError ''lat'')"
| "attr_lat (Observer b l r) = Inr b"

fun attr_lon :: "observer \<Rightarrow> error + Angle" where
  "attr_lon (Label s) = Inl (AttributeError ''lon'')"
| "attr_lon (Observer b l r) = Inr l"

fun attr_radius :: "observer \<Rightarrow> error + Quantity" where
  "attr_radius (Label s) = Inl (AttributeError ''radius'')"
| "attr_radius (Observer b l r) = Inr r"

text \<open>
  A frame instance carries an observation time (\<open>None\<close> is Python's \<^verbatim>\<open>None\<close>) and possibly
  an \<^verbatim>\<open>observer\<close> attribute (\<open>None\<close>: the object has no such attribute, as for the
  heliographic frames).  Instants are values of an arbitrary type \<open>'t\<close> that are compared as
  a whole.  A coordinate is a frame instance with data.
\<close>

record 't frame =
  obstime :: "'t option"
  observer :: "observer option"

record ('t, 'r) coord = "'t frame" +
  data :: 'r

datatype CartesianRepresentation =
  CartesianRepresentation (rep_x: Quantity) (rep_y: Quantity) (rep_z: Quantity)

datatype SphericalData =
    SphericalRepresentation Angle Angle Quantity
  | UnitSphericalRepresentation Angle Angle

text \<open>
  The \<^verbatim>\<open>.spherical\<close> view of the data: a direction without distance is given the
  dimensionless distance \<open>1\<close>.
\<close>

fun spherical :: "SphericalData \<Rightarrow> Angle \<times> Angle \<times> Quantity" where
  "spherical (SphericalRepresentation l b d) = (l, b, d)"
| "spherical (UnitSphericalRepresentation l b) = (l, b, Quantity 1 One)"

text \<open>
  Modelled from the library: the call \<^verbatim>\<open>SphericalRepresentation(lon, lat, distance)\<close> stores
  the longitude as a \<^verbatim>\<open>Longitude\<close>, which for a plain angle has the default wrap angle of
  \<open>360\<close> degrees.  (The longitudes that this module passes are sums, differences and results
  of numpy functions, which are plain angles.  The latitudes it passes are latitudes of
  coordinates or arcsines, which the \<^verbatim>\<open>Latitude\<close> class accepts.)
\<close>

definition SphericalRepresentation_init :: "Angle \<Rightarrow> Angle \<Rightarrow> Quantity \<Rightarrow> SphericalData" where
  "SphericalRepresentation_init lon lat distance =
     SphericalRepresentation (wrap_at (Angle 360 Deg) lon) lat distance"

definition realize_frame :: "('t, 'm) frame_scheme \<Rightarrow> 'r \<Rightarrow> ('t, 'r) coord" where
  "realize_frame f rep = \<lparr>obstime = obstime f, observer = observer f, data = rep\<rparr>"

text \<open>
  The frame classes are defined in the frames module, which is not among the sources at
  hand.  What this module relies on: a new frame object with spherical data sets the wrap
  angle of the longitude of its data to the wrap angle of its class, which is \<open>180\<close> degrees
  for the Stonyhurst and the helioprojective frame and \<open>360\<close> degrees for the Carrington
  frame.  The class of the frame that a transformation function realises is the destination
  class for which the function is registered.  The data of a coordinate that is given to a
  function have been through this already.
\<close>

definition set_wrap_angle :: "Angle \<Rightarrow> SphericalData \<Rightarrow> SphericalData" where
  "set_wrap_angle wrap_angle rep =
     (case rep of
        SphericalRepresentation l b d \<Rightarrow> SphericalRepresentation (wrap_at wrap_angle l) b d
      | UnitSphericalRepresentation l b \<Rightarrow> UnitSphericalRepresentation (wrap_at wrap_angle l) b)"

definition HeliographicStonyhurst_wrap_angle :: Angle where
  "HeliographicStonyhurst_wrap_angle = Angle 180 Deg"

definition HeliographicCarrington_wrap_angle :: Angle where
  "HeliographicCarrington_wrap_angle = Angle 360 Deg"

definition Helioprojective_wrap_angle :: Angle where
  "Helioprojective_wrap_angle = Angle 180 Deg"

definition getattr_observer :: "('t, 'm) frame_scheme \<Rightarrow> error + observer" where
  "getattr_observer f =
     (case observer f of None \<Rightarrow> Inl (AttributeError ''observer'') | Some ob \<Rightarrow> Inr ob)"

text \<open>The frame constructors the module calls.\<close>

definition HeliographicStonyhurst :: "'t option \<Rightarrow> 't frame" where
  "HeliographicStonyhurst t = \<lparr>obstime = t, observer = None\<rparr>"

definition HeliographicCarrington :: "'t option \<Rightarrow> 't frame" where
  "HeliographicCarrington t = \<lparr>obstime = t, observer = None\<rparr>"

definition Heliocentric :: "observer \<Rightarrow> 't frame" where
  "Heliocentric ob = \<lparr>obstime = None, observer = Some ob\<rparr>"

section \<open>The transformation functions\<close>

text \<open>
  What the module takes from elsewhere is a parameter of the function that uses it:
  \<open>L0\<close> (the Carrington longitude of the central meridian at an instant, from
  \<^verbatim>\<open>sunpy.coordinates.sun\<close>), the solar radius in metres (from \<^verbatim>\<open>sunpy.sun.constants\<close>),
  the method \<^verbatim>\<open>calculate_distance\<close> of the helioprojective frame, and the paths that the
  transformation graph has to compose itself.  A \<^verbatim>\<open>transform_to\<close> between two frame classes
  that this module joins by a single function is a call of that function.
\<close>

definition RSUN_METERS :: "real \<Rightarrow> Quantity" where
  "RSUN_METERS radius_si = Quantity radius_si M"

definition carrington_offset :: "('t \<Rightarrow> Angle) \<Rightarrow> 't option \<Rightarrow> error + Angle" where
  "carrington_offset L0 t =
     (case t of None \<Rightarrow> Inl (ValueError ''_carrington_offset'') | Some t' \<Rightarrow> Inr (L0 t'))"

text \<open>
  \<^verbatim>\<open>obs_1 == obs_2\<close> is equality of the two values.  (For two frame objects Python compares
  identities; two observers with equal components pass the tolerance test below anyway.)
\<close>

definition observers_are_equal :: "observer \<Rightarrow> observer \<Rightarrow> bool \<Rightarrow> error + bool" where
  "observers_are_equal obs_1 obs_2 string_ok =
     (if string_ok \<and> obs_1 = obs_2 then Inr True
      else if \<not> (isinstance_BaseCoordinateFrame obs_1 \<and> isinstance_BaseCoordinateFrame obs_2)
      then Inl (ValueError ''_observers_are_equal'')
      else
        ebind (attr_lat obs_1) (\<lambda>lat_1. ebind (attr_lat obs_2) (\<lambda>lat_2.
        if \<not> a_allclose lat_1 lat_2 then Inr False
        else
          ebind (attr_lon obs_1) (\<lambda>lon_1. ebind (attr_lon obs_2) (\<lambda>lon_2.
          if \<not> a_allclose lon_1 lon_2 then Inr False
          else
            ebind (attr_radius obs_1) (\<lambda>radius_1. ebind (attr_radius obs_2) (\<lambda>radius_2.
            q_allclose radius_1 radius_2)))))))"

definition hgs_to_hgc ::
  "('t \<Rightarrow> Angle) \<Rightarrow> ('t, SphericalData) coord \<Rightarrow> 't frame \<Rightarrow> error + ('t, SphericalData) coord" where
  "hgs_to_hgc L0 hgscoord hgcframe =
     (if obstime hgcframe = None \<or> obstime hgcframe \<noteq> obstime hgscoord
      then Inl (ValueError ''hgs_to_hgc'')
      else
        (case spherical (data hgscoord) of (s_lon, s_lat, s_distance) \<Rightarrow>
          ebind (carrington_offset L0 (obstime hgscoord)) (\<lambda>offset.
            let c_lon = a_add s_lon (a_to offset Deg);
                representation = SphericalRepresentation_init c_lon s_lat s_distance;
                hgcframe' = HeliographicCarrington (obstime hgscoord)
            in Inr (realize_frame hgcframe'
                      (set_wrap_angle HeliographicCarrington_wrap_angle representation)))))"

definition hgc_to_hgs ::
  "('t \<Rightarrow> Angle) \<Rightarrow> ('t, SphericalData) coord \<Rightarrow> 't frame \<Rightarrow> error + ('t, SphericalData) coord" where
  "hgc_to_hgs L0 hgccoord hgsframe =
     (if obstime hgsframe = None \<or> obstime hgsframe \<noteq> obstime hgccoord
      then Inl (ValueError ''hgc_to_hgs'')
      else
        (case spherical (data hgccoord) of (c_lon, c_lat, c_distance) \<Rightarrow>
          ebind (carrington_offset L0 (obstime hgsframe)) (\<lambda>offset.
            let s_lon = a_sub c_lon (a_to offset Deg);
                representation = SphericalRepresentation_init s_lon c_lat c_distance
            in Inr (realize_frame hgsframe
                      (set_wrap_angle HeliographicStonyhurst_wrap_angle representation)))))"

text \<open>
  \<^verbatim>\<open>np.ones_like(r)\<close> keeps the unit of \<open>r\<close>; \<open>q_mul_one a b\<close> is the product \<open>a * b\<close> for a
  dimensionless \<open>a\<close>, which has the unit of \<open>b\<close>.
\<close>

definition np_ones_like :: "Quantity \<Rightarrow> Quantity" where
  "np_ones_like r = Quantity 1 (q_unit r)"

definition q_mul_one :: "Quantity \<Rightarrow> Quantity \<Rightarrow> Quantity" where
  "q_mul_one a b = Quantity (q_mag a * q_mag b) (q_unit b)"

definition hcc_to_hgs ::
  "('t, CartesianRepresentation) coord \<Rightarrow> 't frame \<Rightarrow> error + ('t, SphericalData) coord" where
  "hcc_to_hgs helioccoord heliogframe =
     ebind (getattr_observer helioccoord) (\<lambda>ob.
     if \<not> isinstance_BaseCoordinateFrame ob then Inl (ConvertError ''hcc_to_hgs'')
     else
       ebind (q_to (rep_x (data helioccoord)) M) (\<lambda>x.
       ebind (q_to (rep_y (data helioccoord)) M) (\<lambda>y.
       ebind (q_to (rep_z (data helioccoord)) M) (\<lambda>z.
       ebind (attr_lon ob) (\<lambda>l0_rad.
       ebind (attr_lat ob) (\<lambda>b0_deg.
         let cosb = np_cos (np_deg2rad b0_deg);
             sinb = np_sin (np_deg2rad b0_deg)
         in
         ebind (np_sqrt_sum_squares x y z) (\<lambda>hecr.
         ebind (q_sub (q_scale z cosb) (q_scale y sinb)) (\<lambda>w.
         ebind (np_arctan2 x w) (\<lambda>a.
         ebind (q_add (q_scale y cosb) (q_scale z sinb)) (\<lambda>n.
         ebind (q_ratio n hecr) (\<lambda>ratio.
           let hgln = a_add a l0_rad;
               hglt = np_arcsin ratio
           in
           ebind (q_to hecr Km) (\<lambda>d.
             let representation =
                   SphericalRepresentation_init (np_rad2deg hgln) (np_rad2deg hglt) d
             in Inr (realize_frame heliogframe
                       (set_wrap_angle HeliographicStonyhurst_wrap_angle
                          representation))))))))))))))"

definition hgs_to_hcc ::
  "real \<Rightarrow> ('t, SphericalData) coord \<Rightarrow> 't frame \<Rightarrow> error + ('t, CartesianRepresentation) coord" where
  "hgs_to_hcc rsun heliogcoord heliocframe =
     (case spherical (data heliogcoord) of (hglon, hglat, r0) \<Rightarrow>
       let r = (if q_unit r0 = One \<and> q_allclose r0 (Quantity 1 One) = Inr True
                then q_mul_one (np_ones_like r0) (RSUN_METERS rsun) else r0)
       in
       ebind (getattr_observer heliocframe) (\<lambda>ob.
       if \<not> isinstance_BaseCoordinateFrame ob then Inl (ConvertError ''hgs_to_hcc'')
       else
         ebind (attr_lon ob) (\<lambda>ob_lon.
         ebind (attr_lat ob) (\<lambda>b0_deg.
           let l0_rad = a_to ob_lon Rad;
               lon0 = np_deg2rad hglon;
               lat = np_deg2rad hglat;
               cosb = np_cos (a_to b0_deg Rad);
               sinb = np_sin (a_to b0_deg Rad);
               lon = a_sub lon0 l0_rad;
               cosx = np_cos lon;
               sinx = np_sin lon;
               cosy = np_cos lat;
               siny = np_sin lat;
               x = q_scale (q_scale r cosy) sinx;
               y = q_scale r (siny * cosb - cosy * cosx * sinb);
               zz = q_scale r (siny * sinb + cosy * cosx * cosb)
           in
           ebind (q_to x Km) (\<lambda>x_km.
           ebind (q_to y Km) (\<lambda>y_km.
           ebind (q_to zz Km) (\<lambda>z_km.
             Inr (realize_frame heliocframe (CartesianRepresentation x_km y_km z_km)))))))))"

text \<open>
  \<^verbatim>\<open>hcccoord.transform_to(HeliographicStonyhurst)\<close> is given the class, so the destination is
  the frame with default attributes.  The assignment \<^verbatim>\<open>hgscoord.observer = hccframe.observer\<close>
  sets the attribute on the intermediate coordinate.
\<close>

definition hcc_to_hcc ::
  "real \<Rightarrow> ('t, CartesianRepresentation) coord \<Rightarrow> 't frame
     \<Rightarrow> error + ('t, CartesianRepresentation) coord" where
  "hcc_to_hcc rsun hcccoord hccframe =
     ebind (getattr_observer hcccoord) (\<lambda>obs_1.
     ebind (getattr_observer hccframe) (\<lambda>obs_2.
     ebind (observers_are_equal obs_1 obs_2 True) (\<lambda>eq.
       if eq then Inr (realize_frame hccframe (data hcccoord))
       else
         ebind (hcc_to_hgs hcccoord (HeliographicStonyhurst None)) (\<lambda>hgscoord.
           let hgscoord' = hgscoord\<lparr>observer := observer hccframe\<rparr>
           in hgs_to_hcc rsun hgscoord' hccframe))))"

definition hcc_to_hpc ::
  "real \<Rightarrow> ('t, CartesianRepresentation) coord \<Rightarrow> 't frame \<Rightarrow> error + ('t, SphericalData) coord" where
  "hcc_to_hpc rsun helioccoord heliopframe =
     ebind (getattr_observer helioccoord) (\<lambda>obs_1.
     ebind (getattr_observer heliopframe) (\<lambda>obs_2.
     ebind (observers_are_equal obs_1 obs_2 False) (\<lambda>eq.
     ebind (if \<not> eq then hcc_to_hcc rsun helioccoord (Heliocentric obs_2)
            else Inr helioccoord) (\<lambda>helioccoord'.
       ebind (q_to (rep_x (data helioccoord')) M) (\<lambda>x.
       ebind (q_to (rep_y (data helioccoord')) M) (\<lambda>y.
       ebind (q_to (rep_z (data helioccoord')) M) (\<lambda>z.
       ebind (getattr_observer helioccoord') (\<lambda>ob.
       ebind (attr_radius ob) (\<lambda>D0.
       ebind (q_sub D0 z) (\<lambda>w.
       ebind (np_sqrt_sum_squares x y w) (\<lambda>distance.
       ebind (np_arctan2 x w) (\<lambda>a.
       ebind (q_ratio y distance) (\<lambda>ratio.
         let hpcx = np_rad2deg a;
             hpcy = np_rad2deg (np_arcsin ratio)
         in
         ebind (q_to distance Km) (\<lambda>d.
           let representation = SphericalRepresentation_init hpcx hpcy d
           in Inr (realize_frame heliopframe
                     (set_wrap_angle Helioprojective_wrap_angle representation))))))))))))))))"

text \<open>
  When the observers differ, \<^verbatim>\<open>hpc_to_hcc\<close> is entered again through the transformation
  graph, with a heliocentric frame that has the observer of the coordinate.
\<close>

function hpc_to_hcc ::
  "real \<Rightarrow> (('t, SphericalData) coord \<Rightarrow> error + ('t, SphericalData) coord)
     \<Rightarrow> ('t, SphericalData) coord \<Rightarrow> 't frame \<Rightarrow> error + ('t, CartesianRepresentation) coord" where
  "hpc_to_hcc rsun calculate_distance heliopcoord heliocframe =
     (case getattr_observer heliopcoord of Inl e \<Rightarrow> Inl e | Inr obs_1 \<Rightarrow>
     (case getattr_observer heliocframe of Inl e \<Rightarrow> Inl e | Inr obs_2 \<Rightarrow>
     (case observers_are_equal obs_1 obs_2 False of Inl e \<Rightarrow> Inl e | Inr eq \<Rightarrow>
       if \<not> eq then
         (case hpc_to_hcc rsun calculate_distance heliopcoord (Heliocentric obs_1) of
            Inl e \<Rightarrow> Inl e
          | Inr helioccoord_heliopobs \<Rightarrow> hcc_to_hcc rsun helioccoord_heliopobs heliocframe)
       else if \<not> isinstance_BaseCoordinateFrame obs_1 then Inl (ConvertError ''hpc_to_hcc'')
       else
         ebind (calculate_distance heliopcoord) (\<lambda>heliopcoord'.
         (case spherical (data heliopcoord') of (Tx, Ty, distance) \<Rightarrow>
           let x = np_deg2rad Tx;
               y = np_deg2rad Ty;
               cosx = np_cos x;
               sinx = np_sin x;
               cosy = np_cos y;
               siny = np_sin y
           in
           ebind (q_to distance M) (\<lambda>distance_m.
           ebind (getattr_observer heliopcoord') (\<lambda>ob.
           ebind (attr_radius ob) (\<lambda>ob_radius.
           ebind (q_to ob_radius M) (\<lambda>radius_m.
           ebind (q_sub radius_m (q_scale (q_scale distance_m cosy) cosx)) (\<lambda>rz.
             let rx = q_scale (q_scale distance_m cosy) sinx;
                 ry = q_scale distance_m siny
             in
             ebind (q_to rx Km) (\<lambda>rx_km.
             ebind (q_to ry Km) (\<lambda>ry_km.
             ebind (q_to rz Km) (\<lambda>rz_km.
               Inr (realize_frame heliocframe
                      (CartesianRepresentation rx_km ry_km rz_km)))))))))))))))"
  by pat_completeness auto

termination hpc_to_hcc
proof (relation "measure (\<lambda>(rsun, cd, c, f).
     (case getattr_observer c of Inl e \<Rightarrow> 0 | Inr o1 \<Rightarrow>
      (case getattr_observer f of Inl e \<Rightarrow> 0 | Inr o2 \<Rightarrow>
         if observers_are_equal o1 o2 False = Inr False then 1 else 0)))", goal_cases)
  case 1
  show ?case by simp
next
  case (2 rsun cd c f o1 o2 eq)
  have pos: "ascale u \<noteq> 0" "qscale v \<noteq> 0" for u v
    by (cases u, simp_all) (cases v, simp_all)
  have refl: "observers_are_equal ob ob False = Inr True"
    if "isinstance_BaseCoordinateFrame ob" for ob
    using that pos
    by (cases ob)
       (simp_all add: observers_are_equal_def ebind_def a_allclose_def q_allclose_def
          q_to_def a_to_def rtol_def)
  from 2 have "isinstance_BaseCoordinateFrame o1"
    by (auto simp: observers_are_equal_def split: if_splits)
  then have "observers_are_equal o1 o1 False = Inr True"
    by (rule refl)
  with 2 show ?case
    by (simp add: Heliocentric_def getattr_observer_def)
qed

declare hpc_to_hcc.simps [simp del]

text \<open>
  The two \<^verbatim>\<open>transform_to\<close> calls of \<^verbatim>\<open>hpc_to_hpc\<close> have no single function in this module
  (the graph goes through the heliocentric frame); they are the parameters
  \<open>transform_to_hgs\<close> and \<open>transform_to_hpc\<close>.
\<close>

definition hpc_to_hpc ::
  "(('t, SphericalData) coord \<Rightarrow> 't frame \<Rightarrow> error + ('t, SphericalData) coord)
     \<Rightarrow> (('t, SphericalData) coord \<Rightarrow> 't frame \<Rightarrow> error + ('t, SphericalData) coord)
     \<Rightarrow> ('t, SphericalData) coord \<Rightarrow> 't frame \<Rightarrow> error + ('t, SphericalData) coord" where
  "hpc_to_hpc transform_to_hgs transform_to_hpc heliopcoord heliopframe =
     ebind (getattr_observer heliopcoord) (\<lambda>obs_1.
     ebind (getattr_observer heliopframe) (\<lambda>obs_2.
     ebind (if obs_1 = obs_2 then Inr True
            else
              ebind (attr_lat obs_1) (\<lambda>lat_1. ebind (attr_lat obs_2) (\<lambda>lat_2.
              if \<not> a_allclose lat_1 lat_2 then Inr False
              else
                ebind (attr_lon obs_1) (\<lambda>lon_1. ebind (attr_lon obs_2) (\<lambda>lon_2.
                if \<not> a_allclose lon_1 lon_2 then Inr False
                else
                  ebind (attr_radius obs_1) (\<lambda>radius_1. ebind (attr_radius obs_2) (\<lambda>radius_2.
                  q_allclose radius_1 radius_2))))))) (\<lambda>same.
       if same then Inr (realize_frame heliopframe (data heliopcoord))
       else if \<not> isinstance_BaseCoordinateFrame obs_2 then Inl (ConvertError ''hpc_to_hpc'')
       else if \<not> isinstance_BaseCoordinateFrame obs_1 then Inl (ConvertError ''hpc_to_hpc'')
       else
         ebind (transform_to_hgs heliopcoord (HeliographicStonyhurst None)) (\<lambda>hgs.
           let hgs' = hgs\<lparr>observer := observer heliopframe\<rparr>
           in transform_to_hpc hgs' heliopframe))))"

text \<open>
  Between two Stonyhurst frames of different instants the point goes through the inertial
  frame HCRS; the graph applies the affine transforms of that path, which are the parameters
  \<open>transform_to_HCRS\<close> and \<open>transform_from_HCRS\<close> (\<open>'h\<close> is the type of inertial coordinates).
  \<^verbatim>\<open>np.all(a == b)\<close> on two instants is their equality.
\<close>

definition hgs_to_hgs ::
  "(('t, SphericalData) coord \<Rightarrow> error + 'h)
     \<Rightarrow> ('h \<Rightarrow> 't frame \<Rightarrow> error + ('t, SphericalData) coord)
     \<Rightarrow> ('t, SphericalData) coord \<Rightarrow> 't frame \<Rightarrow> error + ('t, SphericalData) coord" where
  "hgs_to_hgs transform_to_HCRS transform_from_HCRS from_coo to_frame =
     (if obstime from_coo = obstime to_frame
      then Inr (realize_frame to_frame (data from_coo))
      else ebind (transform_to_HCRS from_coo) (\<lambda>h. transform_from_HCRS h to_frame))"

definition hgc_to_hgc ::
  "('t \<Rightarrow> Angle)
     \<Rightarrow> (('t, SphericalData) coord \<Rightarrow> error + 'h)
     \<Rightarrow> ('h \<Rightarrow> 't frame \<Rightarrow> error + ('t, SphericalData) coord)
     \<Rightarrow> ('t, SphericalData) coord \<Rightarrow> 't frame \<Rightarrow> error + ('t, SphericalData) coord" where
  "hgc_to_hgc L0 transform_to_HCRS transform_from_HCRS from_coo to_frame =
     (if obstime from_coo = obstime to_frame
      then Inr (realize_frame to_frame (data from_coo))
      else
        ebind (hgc_to_hgs L0 from_coo (HeliographicStonyhurst (obstime from_coo))) (\<lambda>hgs_1.
        ebind (hgs_to_hgs transform_to_HCRS transform_from_HCRS hgs_1
                 (HeliographicStonyhurst (obstime to_frame))) (\<lambda>hgs_2.
          hgs_to_hgc L0 hgs_2 to_frame)))"

section \<open>The affine transformation between HCRS and Stonyhurst\<close>

text \<open>
  Positions are vectors of three real magnitudes in one length unit, matrices are three
  rows.  A value that numpy holds as a scalar or as a one-dimensional array is an \<open>'a nd\<close>;
  an operation on two of them broadcasts a scalar against an array and fails on two arrays
  of different lengths.  The observation time of the frames of this section is an
  \<open>'i nd\<close>: one instant or an array of instants.
\<close>

type_synonym vec3 = "real \<times> real \<times> real"

type_synonym mat3 = "vec3 \<times> vec3 \<times> vec3"

datatype 'a nd = Scalar 'a | Array "'a list"

fun isscalar :: "'a nd \<Rightarrow> bool" where
  "isscalar (Scalar a) = True"
| "isscalar (Array as) = False"

fun elements :: "'a nd \<Rightarrow> 'a list" where
  "elements (Scalar a) = [a]"
| "elements (Array as) = as"

fun nd_map :: "('a \<Rightarrow> 'b) \<Rightarrow> 'a nd \<Rightarrow> 'b nd" where
  "nd_map g (Scalar a) = Scalar (g a)"
| "nd_map g (Array as) = Array (map g as)"

fun nd_map2 :: "('a \<Rightarrow> 'b \<Rightarrow> 'c) \<Rightarrow> 'a nd \<Rightarrow> 'b nd \<Rightarrow> error + 'c nd" where
  "nd_map2 g (Scalar a) (Scalar b) = Inr (Scalar (g a b))"
| "nd_map2 g (Scalar a) (Array bs) = Inr (Array (map (g a) bs))"
| "nd_map2 g (Array as) (Scalar b) = Inr (Array (map (\<lambda>a. g a b) as))"
| "nd_map2 g (Array as) (Array bs) =
     (if length as = length bs then Inr (Array (map (\<lambda>(a, b). g a b) (zip as bs)))
      else if length as = 1 then Inr (Array (map (g (hd as)) bs))
      else if length bs = 1 then Inr (Array (map (\<lambda>a. g a (hd bs)) as))
      else Inl (ValueError ''broadcast''))"

definition vsub :: "vec3 \<Rightarrow> vec3 \<Rightarrow> vec3" where
  "vsub a b = (case a of (a1, a2, a3) \<Rightarrow> case b of (b1, b2, b3) \<Rightarrow> (a1 - b1, a2 - b2, a3 - b3))"

definition vneg :: "vec3 \<Rightarrow> vec3" where
  "vneg a = (case a of (a1, a2, a3) \<Rightarrow> (- a1, - a2, - a3))"

definition dot :: "vec3 \<Rightarrow> vec3 \<Rightarrow> real" where
  "dot a b = (case a of (a1, a2, a3) \<Rightarrow> case b of (b1, b2, b3) \<Rightarrow> a1 * b1 + a2 * b2 + a3 * b3)"

definition norm3 :: "vec3 \<Rightarrow> real" where
  "norm3 a = sqrt (dot a a)"

definition cross :: "vec3 \<Rightarrow> vec3 \<Rightarrow> vec3" where
  "cross a b =
     (case a of (a1, a2, a3) \<Rightarrow> case b of (b1, b2, b3) \<Rightarrow>
        (a2 * b3 - a3 * b2, a3 * b1 - a1 * b3, a1 * b2 - a2 * b1))"

definition matrix_transpose :: "mat3 \<Rightarrow> mat3" where
  "matrix_transpose m =
     (case m of ((a11, a12, a13), (a21, a22, a23), (a31, a32, a33)) \<Rightarrow>
        ((a11, a21, a31), (a12, a22, a32), (a13, a23, a33)))"

text \<open>\<open>transform v m\<close> is \<^verbatim>\<open>v.transform(m)\<close>: the matrix applied to the vector.\<close>

definition transform :: "vec3 \<Rightarrow> mat3 \<Rightarrow> vec3" where
  "transform v m = (case m of (r1, r2, r3) \<Rightarrow> (dot r1 v, dot r2 v, dot r3 v))"

definition matrix_product :: "mat3 \<Rightarrow> mat3 \<Rightarrow> mat3" where
  "matrix_product a b =
     (case a of (r1, r2, r3) \<Rightarrow> case matrix_transpose b of (c1, c2, c3) \<Rightarrow>
        ((dot r1 c1, dot r1 c2, dot r1 c3),
         (dot r2 c1, dot r2 c2, dot r2 c3),
         (dot r3 c1, dot r3 c2, dot r3 c3)))"

definition identity3 :: mat3 where
  "identity3 = ((1, 0, 0), (0, 1, 0), (0, 0, 1))"

text \<open>
  The Cartesian form of spherical data (the magnitudes, in the unit of the distance; a
  direction without distance has length \<open>1\<close>).
\<close>

definition to_cartesian :: "SphericalData \<Rightarrow> vec3" where
  "to_cartesian s =
     (case spherical s of (l, b, d) \<Rightarrow>
        (q_mag d * np_cos b * np_cos l, q_mag d * np_cos b * np_sin l, q_mag d * np_sin b))"

text \<open>
  \<^verbatim>\<open>rotation_matrix\<close> of the matrix library is a parameter: it takes the angle (in radians
  here) and the axis.
\<close>

definition make_rotation_matrix_from_reprs :: "(real \<Rightarrow> vec3 \<Rightarrow> mat3) \<Rightarrow> vec3 \<Rightarrow> vec3 \<Rightarrow> mat3" where
  "make_rotation_matrix_from_reprs rotation_matrix A B =
     (let rotation_axis = cross A B;
          rotation_angle = - arccos (dot A B / (norm3 A * norm3 B))
      in rotation_matrix rotation_angle rotation_axis)"

definition SOLAR_NORTH_POLE_HCRS :: SphericalData where
  "SOLAR_NORTH_POLE_HCRS = UnitSphericalRepresentation (Angle (28613 / 100) Deg) (Angle (6387 / 100) Deg)"

definition SUN_DETILT_MATRIX :: "(real \<Rightarrow> vec3 \<Rightarrow> mat3) \<Rightarrow> mat3" where
  "SUN_DETILT_MATRIX rotation_matrix =
     make_rotation_matrix_from_reprs rotation_matrix (to_cartesian SOLAR_NORTH_POLE_HCRS) (0, 0, 1)"

text \<open>
  The ephemeris \<^verbatim>\<open>get_body_barycentric\<close> is the parameter \<open>ephemeris\<close>, a position for a body
  and one instant; on an array of instants it gives the array of positions.  It cannot be
  evaluated at \<^verbatim>\<open>None\<close>.
\<close>

definition get_body_barycentric ::
  "(string \<Rightarrow> 'i \<Rightarrow> vec3) \<Rightarrow> string \<Rightarrow> 'i nd option \<Rightarrow> error + vec3 nd" where
  "get_body_barycentric ephemeris body t =
     (case t of None \<Rightarrow> Inl (AttributeError ''tdb'') | Some t' \<Rightarrow> Inr (nd_map (ephemeris body) t'))"

text \<open>\<^verbatim>\<open>np.stack\<close> of a list of arrays; it raises \<^verbatim>\<open>ValueError\<close> for the empty list.\<close>

definition np_stack :: "'a list \<Rightarrow> error + 'a nd" where
  "np_stack arrays = (if arrays = [] then Inl (ValueError ''np.stack'') else Inr (Array arrays))"

definition hcrs_to_hgs ::
  "(real \<Rightarrow> vec3 \<Rightarrow> mat3) \<Rightarrow> (string \<Rightarrow> 'i \<Rightarrow> vec3)
     \<Rightarrow> ('i nd, 'a) frame_scheme \<Rightarrow> ('i nd, 'b) frame_scheme \<Rightarrow> error + mat3 nd \<times> vec3 nd" where
  "hcrs_to_hgs rotation_matrix ephemeris hcrscoord hgsframe =
     (case obstime hgsframe of
        None \<Rightarrow> Inl (ValueError ''hcrs_to_hgs'')
      | Some hgs_obstime \<Rightarrow>
        ebind (get_body_barycentric ephemeris ''sun'' (Some hgs_obstime)) (\<lambda>sun_pos_icrs.
        ebind (get_body_barycentric ephemeris ''earth'' (Some hgs_obstime)) (\<lambda>earth_pos_icrs.
        ebind (nd_map2 vsub earth_pos_icrs sun_pos_icrs) (\<lambda>sun_earth.
          let sun_earth_detilt =
                nd_map (\<lambda>v. transform v (SUN_DETILT_MATRIX rotation_matrix)) sun_earth;
              hgs_x_axis_detilt =
                nd_map (\<lambda>v. case v of (v1, v2, v3) \<Rightarrow> (v1 * 1, v2 * 1, v3 * 0)) sun_earth_detilt;
              x_axis = (1, 0, 0)
          in
          ebind (if isscalar hgs_obstime
                 then Inr (nd_map
                        (\<lambda>vect. make_rotation_matrix_from_reprs rotation_matrix vect x_axis)
                        hgs_x_axis_detilt)
                 else np_stack
                        (map (\<lambda>vect. make_rotation_matrix_from_reprs rotation_matrix vect x_axis)
                           (elements hgs_x_axis_detilt))) (\<lambda>rot_matrix.
          let total_matrix =
                nd_map (\<lambda>m. matrix_product m (SUN_DETILT_MATRIX rotation_matrix)) rot_matrix
          in
          if obstime hcrscoord \<noteq> Some hgs_obstime then
            ebind (get_body_barycentric ephemeris ''sun'' (obstime hcrscoord)) (\<lambda>sun_pos_old_icrs.
            ebind (nd_map2 vsub sun_pos_icrs sun_pos_old_icrs) (\<lambda>offset_icrf.
            ebind (nd_map2 transform offset_icrf total_matrix) (\<lambda>offset.
              Inr (total_matrix, offset))))
          else Inr (total_matrix, Scalar (0, 0, 0)))))))"

definition hgs_to_hcrs ::
  "(real \<Rightarrow> vec3 \<Rightarrow> mat3) \<Rightarrow> (string \<Rightarrow> 'i \<Rightarrow> vec3)
     \<Rightarrow> ('i nd, 'a) frame_scheme \<Rightarrow> ('i nd, 'b) frame_scheme \<Rightarrow> error + mat3 nd \<times> vec3 nd" where
  "hgs_to_hcrs rotation_matrix ephemeris hgscoord hcrsframe =
     ebind (hcrs_to_hgs rotation_matrix ephemeris hcrsframe hgscoord) (\<lambda>(total_matrix, offset).
       let reverse_matrix = nd_map matrix_transpose total_matrix
       in ebind (nd_map2 transform (nd_map vneg offset) reverse_matrix) (\<lambda>reverse_offset.
            Inr (reverse_matrix, reverse_offset)))"

text \<open>What the transformation graph does with a matrix and an offset: \<open>M \<cdot> v + offset\<close>.\<close>

definition vadd :: "vec3 \<Rightarrow> vec3 \<Rightarrow> vec3" where
  "vadd a b = (case a of (a1, a2, a3) \<Rightarrow> case b of (b1, b2, b3) \<Rightarrow> (a1 + b1, a2 + b2, a3 + b3))"

definition apply_affine :: "mat3 \<Rightarrow> vec3 \<Rightarrow> vec3 \<Rightarrow> vec3" where
  "apply_affine m off v = vadd (transform v m) off"

definition orthonormal :: "mat3 \<Rightarrow> bool" where
  "orthonormal m = (matrix_product (matrix_transpose m) m = identity3)"

text \<open>
  Modelled from the library: \<^verbatim>\<open>rotation_matrix(angle, axis)\<close> of astropy's
  \<^verbatim>\<open>matrix_utilities\<close>, for an axis given as a vector.  The axis is divided by its norm; with
  \<open>c\<close> and \<open>s\<close> the cosine and sine of the angle, the matrix is \<open>(1 - c) a a\<^sup>T + c I\<close> with
  \<open>a\<^sub>i s\<close> added at position \<open>(i+1, i+2)\<close> and subtracted at \<open>(i+2, i+1)\<close> (indices modulo 3).
  It is used to show that the assumption made on the parameter \<open>rotation_matrix\<close> can be met.
\<close>

definition rodrigues :: "real \<Rightarrow> real \<Rightarrow> real \<Rightarrow> real \<Rightarrow> real \<Rightarrow> mat3" where
  "rodrigues c s x y z =
     ((x * x * (1 - c) + c, x * y * (1 - c) + z * s, x * z * (1 - c) - y * s),
      (y * x * (1 - c) - z * s, y * y * (1 - c) + c, y * z * (1 - c) + x * s),
      (z * x * (1 - c) + y * s, z * y * (1 - c) - x * s, z * z * (1 - c) + c))"

definition astropy_rotation_matrix :: "real \<Rightarrow> vec3 \<Rightarrow> mat3" where
  "astropy_rotation_matrix angle axis =
     (let s = sin angle; c = cos angle; n = sqrt (dot axis axis)
      in case axis of (a1, a2, a3) \<Rightarrow> rodrigues c s (a1 / n) (a2 / n) (a3 / n))"

section \<open>Predicates used in the statements\<close>

definition has_geometric_observer :: "('t, 'm) frame_scheme \<Rightarrow> bool" where
  "has_geometric_observer f =
     (case observer f of None \<Rightarrow> False | Some ob \<Rightarrow> isinstance_BaseCoordinateFrame ob)"

definition is_length :: "Quantity \<Rightarrow> bool" where
  "is_length q = (dimension_of (q_unit q) = Length)"

text \<open>\<open>approx_one r\<close>: what the source tests with \<^verbatim>\<open>u.allclose(r, 1*u.one)\<close>.\<close>

definition approx_one :: "Quantity \<Rightarrow> bool" where
  "approx_one r = (q_allclose r (Quantity 1 One) = Inr True)"

text \<open>
  \<open>nondegenerate rotation_matrix ephemeris i\<close>: at the instant \<open>i\<close> the de-tilted Sun-Earth
  vector, with its third component removed, is not parallel to the X axis, so that the axis
  handed to \<^verbatim>\<open>rotation_matrix\<close> is not the zero vector (which the library would divide by
  its norm).
\<close>

definition nondegenerate :: "(real \<Rightarrow> vec3 \<Rightarrow> mat3) \<Rightarrow> (string \<Rightarrow> 'i \<Rightarrow> vec3) \<Rightarrow> 'i \<Rightarrow> bool" where
  "nondegenerate rotation_matrix ephemeris i =
     (case transform (vsub (ephemeris ''earth'' i) (ephemeris ''sun'' i))
             (SUN_DETILT_MATRIX rotation_matrix) of
        (v1, v2, v3) \<Rightarrow> cross (v1, v2, 0) (1, 0, 0) \<noteq> (0, 0, 0))"

text \<open>An ephemeris for the examples: the Sun at the origin, the Earth in a fixed direction.\<close>

definition example_ephemeris :: "string \<Rightarrow> nat \<Rightarrow> vec3" where
  "example_ephemeris body i =
     (if body = ''earth''
      then transform (1, 1, 0) (matrix_transpose (SUN_DETILT_MATRIX astropy_rotation_matrix))
      else (0, 0, 0))"








text \<open>
  Used in the proofs.  \<open>wrap_radians w x\<close> is the number in the range from \<open>w - 2\<pi>\<close>
  (included) to \<open>w\<close> (excluded) that differs from \<open>x\<close> by whole turns.  The axes of a
  heliocentric frame are those of the Stonyhurst frame turned by the longitude \<open>l0\<close> and the
  latitude \<open>b0\<close> of the observer: \<open>to_stonyhurst_axes\<close> and \<open>from_stonyhurst_axes\<close> change the
  components of a vector from the one set of axes to the other.
\<close>

definition wrap_radians :: "real \<Rightarrow> real \<Rightarrow> real" where
  "wrap_radians w x = x - 2 * pi * of_int \<lfloor>(x - w + 2 * pi) / (2 * pi)\<rfloor>"

definition to_stonyhurst_axes :: "real \<Rightarrow> real \<Rightarrow> vec3 \<Rightarrow> vec3" where
  "to_stonyhurst_axes b0 l0 v =
     (case v of (x, y, z) \<Rightarrow>
        let w = z * cos b0 - y * sin b0;
            n = y * cos b0 + z * sin b0
        in (w * cos l0 - x * sin l0, x * cos l0 + w * sin l0, n))"

definition from_stonyhurst_axes :: "real \<Rightarrow> real \<Rightarrow> vec3 \<Rightarrow> vec3" where
  "from_stonyhurst_axes b0 l0 v =
     (case v of (v1, v2, v3) \<Rightarrow>
        let w = v1 * cos l0 + v2 * sin l0
        in (v2 * cos l0 - v1 * sin l0, v3 * cos b0 - w * sin b0, v3 * sin b0 + w * cos b0))"

section \<open>Basic facts about the units\<close>

lemma ebind_simps [simp]:
  "ebind (Inl e) k = Inl e"
  "ebind (Inr v) k = k v"
  by (simp_all add: ebind_def)

lemma ebind_eq_Inl:
  "ebind m k = Inl e \<longleftrightarrow> m = Inl e \<or> (\<exists>v. m = Inr v \<and> k v = Inl e)"
  by (cases m) simp_all

lemma ascale_pos [simp]: "0 < ascale u"
  by (cases u) simp_all

lemma qscale_pos [simp]: "0 < qscale u"
  by (cases u) simp_all

lemma ascale_neq0 [simp]: "ascale u \<noteq> 0"
  by (cases u) simp_all

lemma qscale_neq0 [simp]: "qscale u \<noteq> 0"
  by (cases u) simp_all

lemma radians_a_to [simp]: "radians (a_to a u) = radians a"
  by (simp add: radians_def a_to_def)

lemma radians_a_add [simp]: "radians (a_add a b) = radians a + radians b"
  by (simp add: radians_def a_add_def a_to_def field_simps)

lemma radians_a_sub [simp]: "radians (a_sub a b) = radians a - radians b"
  by (simp add: radians_def a_sub_def a_to_def field_simps)

lemma radians_np_deg2rad [simp]: "radians (np_deg2rad a) = radians a"
  by (simp add: np_deg2rad_def a_to_def radians_def)

lemma degrees_add: "degrees (a_add a b) = degrees a + degrees b"
  by (simp add: degrees_def field_simps)

lemma degrees_sub: "degrees (a_sub a b) = degrees a - degrees b"
  by (simp add: degrees_def field_simps)

lemma degrees_a_to [simp]: "degrees (a_to a u) = degrees a"
  by (simp add: degrees_def)

lemma degrees_np_rad2deg [simp]: "degrees (np_rad2deg a) = degrees a"
  by (simp add: degrees_def radians_def np_rad2deg_def a_to_def)

lemma degrees_Rad [simp]: "degrees (Angle v Rad) = v * 180 / pi"
  by (simp add: degrees_def radians_def)

lemma degrees_Deg [simp]: "degrees (Angle v Deg) = v"
  by (simp add: degrees_def radians_def)

lemma metres_Quantity [simp]: "metres (Quantity v u) = v * qscale u"
  by (simp add: metres_def)

lemma np_cos_radians: "np_cos a = cos (radians a)"
  by (simp add: np_cos_def a_to_def radians_def)

lemma np_sin_radians: "np_sin a = sin (radians a)"
  by (simp add: np_sin_def a_to_def radians_def)

lemma arctan2_0_pos [simp]: "0 < x \<Longrightarrow> arctan2 0 x = 0"
  by (simp add: arctan2_def)

lemma q_to_error: "q_to q u = Inl e \<Longrightarrow> e = UnitConversionError"
  by (simp add: q_to_def split: if_splits)

section \<open>Wrapping of longitudes\<close>

lemma radians_Rad [simp]: "radians (Angle v Rad) = v"
  by (simp add: radians_def)

lemma radians_Deg [simp]: "radians (Angle v Deg) = v * pi / 180"
  by (simp add: radians_def)

lemma radians_np_rad2deg [simp]: "radians (np_rad2deg a) = radians a"
  by (simp add: radians_def np_rad2deg_def a_to_def)

lemma a360_ascale [simp]: "a360 u * ascale u = 2 * pi"
  by (cases u) simp_all

lemma a360_pos [simp]: "0 < a360 u"
  by (cases u) simp_all

lemma radians_wrap_at: "radians (wrap_at w a) = wrap_radians (radians w) (radians a)"
proof -
  let ?s = "ascale (a_unit a)"
  let ?T = "a360 (a_unit a)"
  have T: "?T = 2 * pi / ?s"
    using a360_ascale [of "a_unit a"] by (simp add: field_simps)
  have "(a_mag a - (radians w / ?s - ?T)) / ?T = (radians a - radians w + 2 * pi) / (2 * pi)"
    unfolding T radians_def [of a] by (simp add: field_simps)
  then show ?thesis
    unfolding wrap_at_def wrap_radians_def Let_def a_to_def
    by (simp add: radians_def [symmetric] radians_def [of "Angle x u" for x u] algebra_simps)
qed

lemma wrap_at_unit [simp]: "a_unit (wrap_at w a) = a_unit a"
  by (simp add: wrap_at_def Let_def)

lemma wrap_radians_range: "w - 2 * pi \<le> wrap_radians w x" "wrap_radians w x < w"
proof -
  define k :: real where "k = of_int \<lfloor>(x - w + 2 * pi) / (2 * pi)\<rfloor>"
  have "k \<le> (x - w + 2 * pi) / (2 * pi)" "(x - w + 2 * pi) / (2 * pi) < k + 1"
    unfolding k_def by linarith+
  then have "k * (2 * pi) \<le> x - w + 2 * pi" "x - w + 2 * pi < (k + 1) * (2 * pi)"
    by (simp_all add: pos_le_divide_eq pos_divide_less_eq)
  then have "w - 2 * pi \<le> x - 2 * pi * k" "x - 2 * pi * k < w"
    by (simp_all add: algebra_simps)
  then show "w - 2 * pi \<le> wrap_radians w x" "wrap_radians w x < w"
    by (simp_all add: wrap_radians_def k_def)
qed

lemma wrap_radians_id:
  assumes "w - 2 * pi \<le> x" and "x < w"
  shows "wrap_radians w x = x"
proof -
  have "0 \<le> (x - w + 2 * pi) / (2 * pi)" "(x - w + 2 * pi) / (2 * pi) < 1"
    using assms by simp_all
  then have "\<lfloor>(x - w + 2 * pi) / (2 * pi)\<rfloor> = 0"
    by (simp add: floor_eq_iff)
  then show ?thesis
    by (simp add: wrap_radians_def)
qed

lemma wrap_radians_shift: "wrap_radians w (x + 2 * pi * of_int n) = wrap_radians w x"
proof -
  have "(x + 2 * pi * of_int n - w + 2 * pi) / (2 * pi) = (x - w + 2 * pi) / (2 * pi) + of_int n"
    by (simp add: field_simps)
  then show ?thesis
    by (simp add: wrap_radians_def algebra_simps)
qed

lemma wrap_radians_turns: "\<exists>n :: int. wrap_radians w x = x + 2 * pi * of_int n"
proof
  show "wrap_radians w x = x + 2 * pi * of_int (- \<lfloor>(x - w + 2 * pi) / (2 * pi)\<rfloor>)"
    by (simp add: wrap_radians_def)
qed

lemma wrap_radians_wrap [simp]: "wrap_radians w (wrap_radians v x) = wrap_radians w x"
proof -
  obtain n :: int where "wrap_radians v x = x + 2 * pi * of_int n"
    using wrap_radians_turns by blast
  then show ?thesis
    by (simp only: wrap_radians_shift)
qed

lemma sin_cos_wrap_radians [simp]:
  "sin (wrap_radians w x) = sin x" "cos (wrap_radians w x) = cos x"
proof -
  obtain n :: int where "wrap_radians w x = x + 2 * pi * of_int n"
    using wrap_radians_turns by blast
  then have "sin (wrap_radians w x) = sin x \<and> cos (wrap_radians w x) = cos x"
    unfolding sin_cos_eq_iff by blast
  then show "sin (wrap_radians w x) = sin x" "cos (wrap_radians w x) = cos x"
    by simp_all
qed


lemma radians_wrap_wrap [simp]:
  "radians (wrap_at w (wrap_at v a)) = radians (wrap_at w a)"
  by (simp add: radians_wrap_at)


lemma degrees_wrap_at:
  "degrees (wrap_at w a)
     = degrees a - 360 * of_int \<lfloor>(degrees a - degrees w + 360) / 360\<rfloor>"
proof -
  define k :: real where "k = of_int \<lfloor>(degrees a - degrees w + 360) / 360\<rfloor>"
  have "(radians a - radians w + 2 * pi) / (2 * pi) = (degrees a - degrees w + 360) / 360"
    by (simp add: degrees_def field_simps)
  then have "radians (wrap_at w a) = radians a - 2 * pi * k"
    unfolding radians_wrap_at wrap_radians_def k_def by (rule arg_cong)
  then have "degrees (wrap_at w a) = degrees a - 360 * k"
    by (simp add: degrees_def field_simps)
  then show ?thesis
    by (simp add: k_def)
qed

lemma degrees_wrap_at_range:
  "degrees w - 360 \<le> degrees (wrap_at w a)" "degrees (wrap_at w a) < degrees w"
proof -
  let ?x = "radians (wrap_at w a)"
  have x: "radians w - 2 * pi \<le> ?x" "?x < radians w"
    using wrap_radians_range [of "radians w" "radians a"] by (simp_all add: radians_wrap_at)
  have "(radians w - 2 * pi) * (180 / pi) \<le> ?x * (180 / pi)"
    using x(1) by (rule mult_right_mono) simp
  moreover have "(radians w - 2 * pi) * (180 / pi) = degrees w - 360"
    by (simp add: degrees_def field_simps)
  ultimately show "degrees w - 360 \<le> degrees (wrap_at w a)"
    by (simp add: degrees_def)
  have "?x * (180 / pi) < radians w * (180 / pi)"
    using x(2) by (rule mult_strict_right_mono) simp
  then show "degrees (wrap_at w a) < degrees w"
    by (simp add: degrees_def)
qed

lemma set_wrap_angle_init [simp]:
  "set_wrap_angle w (SphericalRepresentation_init l b d)
     = SphericalRepresentation (wrap_at w (wrap_at (Angle 360 Deg) l)) b d"
  by (simp add: set_wrap_angle_def SphericalRepresentation_init_def)

section \<open>The two-argument arctangent\<close>




lemma arctan2_range: "- pi < arctan2 x w \<and> arctan2 x w \<le> pi"
proof -
  have b: "- (pi / 2) < arctan v" "arctan v < pi / 2" for v
    by (rule arctan_lbound, rule arctan_ubound)
  have n: "arctan v \<le> 0" if "v \<le> 0" for v
    using that by (simp add: arctan_le_zero_iff)
  have p: "0 < arctan v" if "0 < v" for v
    using that by (simp add: zero_less_arctan_iff)
  consider "0 < w" | "w < 0" "0 \<le> x" | "w < 0" "x < 0" | "w = 0"
    by linarith
  then show ?thesis
  proof cases
    case 1
    with b [of "x / w"] show ?thesis
      by (simp add: arctan2_def)
  next
    case 2
    then have "x / w \<le> 0"
      by (simp add: divide_nonneg_neg)
    with 2 b [of "x / w"] n [of "x / w"] show ?thesis
      by (simp add: arctan2_def)
  next
    case 3
    then have "0 < x / w"
      by (simp add: divide_neg_neg)
    with 3 b [of "x / w"] p [of "x / w"] show ?thesis
      by (simp add: arctan2_def)
  next
    case 4
    have "- (pi / 2) \<le> pi"
      using pi_gt_zero by linarith
    with 4 show ?thesis
      by (simp add: arctan2_def)
  qed
qed

lemma arctan2_eq_pi: "arctan2 x w = pi \<longleftrightarrow> x = 0 \<and> w < 0"
proof -
  have b: "- (pi / 2) < arctan v" "arctan v < pi / 2" for v
    by (rule arctan_lbound, rule arctan_ubound)
  consider "0 < w" | "w < 0" "0 \<le> x" | "w < 0" "x < 0" | "w = 0"
    by linarith
  then show ?thesis
  proof cases
    case 1
    with b [of "x / w"] show ?thesis
      by (simp add: arctan2_def)
  next
    case 2
    then have "arctan (x / w) = 0 \<longleftrightarrow> x = 0"
      by (simp add: arctan_eq_zero_iff)
    with 2 show ?thesis
      by (simp add: arctan2_def)
  next
    case 3
    with b [of "x / w"] show ?thesis
      by (simp add: arctan2_def)
  next
    case 4
    have "- (pi / 2) \<noteq> pi"
      using pi_gt_zero by linarith
    with 4 show ?thesis
      by (simp add: arctan2_def)
  qed
qed



lemma wrap_radians_top: "wrap_radians w w = w - 2 * pi"
  by (simp add: wrap_radians_def)

section \<open>Stonyhurst and Carrington\<close>

lemma degrees_wrap_wrap [simp]:
  "degrees (wrap_at w (wrap_at v a)) = degrees (wrap_at w a)"
  by (simp add: degrees_def)

text \<open>
  Claim C2 says that the longitude returned by \<^verbatim>\<open>hgs_to_hgc\<close> is the longitude of the source
  plus the Carrington offset.  The function hands the sum to \<^verbatim>\<open>SphericalRepresentation\<close>,
  which keeps a longitude below \<open>360\<close> degrees: for a source longitude of \<open>100\<close> degrees and
  an offset of \<open>327\<close> degrees the longitude of the result is \<open>67\<close> degrees, not \<open>427\<close>.
\<close>

theorem hgs_to_hgc_longitude_wrapped_counterexample:
  "hgs_to_hgc (\<lambda>t. Angle 327 Deg)
     \<lparr>obstime = Some (0::nat), observer = None,
        data = SphericalRepresentation (Angle 100 Deg) (Angle 20 Deg) (Quantity 1 AU)\<rparr>
     (HeliographicCarrington (Some 0))
   = Inr \<lparr>obstime = Some 0, observer = None,
        data = SphericalRepresentation (Angle 67 Deg) (Angle 20 Deg) (Quantity 1 AU)\<rparr>
   \<and> degrees (Angle 67 Deg) \<noteq> degrees (Angle 100 Deg) + degrees (Angle 327 Deg)"
  by (simp add: hgs_to_hgc_def HeliographicCarrington_def carrington_offset_def
        realize_frame_def a_add_def a_to_def wrap_at_def HeliographicCarrington_wrap_angle_def)

text \<open>
  Claim C2 as amended.  When the coordinate and the destination frame carry the same
  instant \<open>t\<close> (not \<^verbatim>\<open>None\<close>), \<^verbatim>\<open>hgs_to_hgc\<close> returns a point with the latitude and the
  distance of the source whose longitude is the longitude of the source plus the Carrington
  offset \<open>L0 t\<close>, less the whole turns that bring it into the range of the Carrington frame,
  from \<open>0\<close> (included) to \<open>360\<close> degrees (excluded); \<^verbatim>\<open>hgc_to_hgs\<close> returns a point with the
  latitude and the distance of the source whose longitude is the longitude of the source
  minus the same offset, less the whole turns that bring it into the range of the Stonyhurst
  frame, from \<open>-180\<close> (included) to \<open>180\<close> degrees (excluded).
\<close>

theorem hgs_hgc_longitude_shift_wrapped:
  assumes "obstime c = Some t" and "obstime f = Some t"
    and "spherical (data c) = (l, b, d)"
  shows "(\<exists>p l'. hgs_to_hgc L0 c f = Inr p \<and> spherical (data p) = (l', b, d)
            \<and> degrees l' = degrees l + degrees (L0 t)
                 - 360 * of_int \<lfloor>(degrees l + degrees (L0 t)) / 360\<rfloor>
            \<and> 0 \<le> degrees l' \<and> degrees l' < 360)
       \<and> (\<exists>p l'. hgc_to_hgs L0 c f = Inr p \<and> spherical (data p) = (l', b, d)
            \<and> degrees l' = degrees l - degrees (L0 t)
                 - 360 * of_int \<lfloor>(degrees l - degrees (L0 t) + 180) / 360\<rfloor>
            \<and> - 180 \<le> degrees l' \<and> degrees l' < 180)"
proof -
  let ?c = "wrap_at HeliographicCarrington_wrap_angle
      (wrap_at (Angle 360 Deg) (a_add l (a_to (L0 t) Deg)))"
  let ?s = "wrap_at HeliographicStonyhurst_wrap_angle
      (wrap_at (Angle 360 Deg) (a_sub l (a_to (L0 t) Deg)))"
  have c: "degrees ?c = degrees l + degrees (L0 t)
      - 360 * of_int \<lfloor>(degrees l + degrees (L0 t)) / 360\<rfloor>"
    by (simp only: degrees_wrap_wrap)
       (simp add: degrees_wrap_at degrees_add HeliographicCarrington_wrap_angle_def)
  have s: "degrees ?s = degrees l - degrees (L0 t)
      - 360 * of_int \<lfloor>(degrees l - degrees (L0 t) + 180) / 360\<rfloor>"
    by (simp only: degrees_wrap_wrap)
       (simp add: degrees_wrap_at degrees_sub HeliographicStonyhurst_wrap_angle_def
          add.commute)
  note r = degrees_wrap_at_range
  have "hgs_to_hgc L0 c f
      = Inr (realize_frame (HeliographicCarrington (Some t)) (SphericalRepresentation ?c b d))"
    using assms by (simp add: hgs_to_hgc_def carrington_offset_def)
  moreover have "hgc_to_hgs L0 c f = Inr (realize_frame f (SphericalRepresentation ?s b d))"
    using assms by (simp add: hgc_to_hgs_def carrington_offset_def)
  moreover have "0 \<le> degrees ?c" "degrees ?c < 360"
    using r [of HeliographicCarrington_wrap_angle]
    by (simp_all add: HeliographicCarrington_wrap_angle_def)
  moreover have "- 180 \<le> degrees ?s" "degrees ?s < 180"
    using r [of HeliographicStonyhurst_wrap_angle]
    by (simp_all add: HeliographicStonyhurst_wrap_angle_def)
  ultimately show ?thesis
    using c s by (simp add: realize_frame_def)
qed

theorem hgs_hgc_longitude_shift_wrapped_witness:
  "(\<exists>p l'. hgs_to_hgc (\<lambda>t. Angle 327 Deg)
          \<lparr>obstime = Some (0::nat), observer = None,
             data = SphericalRepresentation (Angle 100 Deg) (Angle 20 Deg) (Quantity 1 AU)\<rparr>
          (HeliographicCarrington (Some 0)) = Inr p
        \<and> spherical (data p) = (l', Angle 20 Deg, Quantity 1 AU) \<and> degrees l' = 67)
   \<and> (\<exists>p l'. hgc_to_hgs (\<lambda>t. Angle 327 Deg)
          \<lparr>obstime = Some (0::nat), observer = None,
             data = SphericalRepresentation (Angle 100 Deg) (Angle 20 Deg) (Quantity 1 AU)\<rparr>
          (HeliographicStonyhurst (Some 0)) = Inr p
        \<and> spherical (data p) = (l', Angle 20 Deg, Quantity 1 AU) \<and> degrees l' = 133)
   \<and> (\<exists>p l'. hgs_to_hgc (\<lambda>t. Angle 30 Deg)
          \<lparr>obstime = Some (0::nat), observer = None,
             data = SphericalRepresentation (Angle 10 Deg) (Angle 20 Deg) (Quantity 1 AU)\<rparr>
          (HeliographicCarrington (Some 0)) = Inr p
        \<and> spherical (data p) = (l', Angle 20 Deg, Quantity 1 AU) \<and> degrees l' = 40)
   \<and> (\<exists>p l'. hgc_to_hgs (\<lambda>t. Angle 30 Deg)
          \<lparr>obstime = Some (0::nat), observer = None,
             data = SphericalRepresentation (Angle 10 Deg) (Angle 20 Deg) (Quantity 1 AU)\<rparr>
          (HeliographicStonyhurst (Some 0)) = Inr p
        \<and> spherical (data p) = (l', Angle 20 Deg, Quantity 1 AU) \<and> degrees l' = - 20)"
proof -
  let ?c = "\<lparr>obstime = Some (0::nat), observer = None,
       data = SphericalRepresentation (Angle 100 Deg) (Angle 20 Deg) (Quantity 1 AU)\<rparr>"
  let ?c' = "\<lparr>obstime = Some (0::nat), observer = None,
       data = SphericalRepresentation (Angle 10 Deg) (Angle 20 Deg) (Quantity 1 AU)\<rparr>"
  have h1: "obstime ?c = Some 0" "obstime ?c' = Some 0"
    by simp_all
  have h2: "obstime (HeliographicCarrington (Some (0::nat))) = Some 0"
    "obstime (HeliographicStonyhurst (Some (0::nat))) = Some 0"
    by (simp_all add: HeliographicCarrington_def HeliographicStonyhurst_def)
  have h3: "spherical (data ?c) = (Angle 100 Deg, Angle 20 Deg, Quantity 1 AU)"
    "spherical (data ?c') = (Angle 10 Deg, Angle 20 Deg, Quantity 1 AU)"
    by simp_all
  have f: "\<lfloor>427 / 360 :: real\<rfloor> = 1" "\<lfloor>- 47 / 360 :: real\<rfloor> = - 1"
    "\<lfloor>40 / 360 :: real\<rfloor> = 0" "\<lfloor>160 / 360 :: real\<rfloor> = 0"
    by (simp_all add: floor_eq_iff)
  from hgs_hgc_longitude_shift_wrapped [OF h1(1) h2(1) h3(1), of "\<lambda>t. Angle 327 Deg"]
  have 1: "\<exists>p l'. hgs_to_hgc (\<lambda>t. Angle 327 Deg) ?c (HeliographicCarrington (Some 0)) = Inr p
        \<and> spherical (data p) = (l', Angle 20 Deg, Quantity 1 AU) \<and> degrees l' = 67"
    by (simp add: f) blast
  from hgs_hgc_longitude_shift_wrapped [OF h1(1) h2(2) h3(1), of "\<lambda>t. Angle 327 Deg"]
  have 2: "\<exists>p l'. hgc_to_hgs (\<lambda>t. Angle 327 Deg) ?c (HeliographicStonyhurst (Some 0)) = Inr p
        \<and> spherical (data p) = (l', Angle 20 Deg, Quantity 1 AU) \<and> degrees l' = 133"
    by (simp add: f) blast
  from hgs_hgc_longitude_shift_wrapped [OF h1(2) h2(1) h3(2), of "\<lambda>t. Angle 30 Deg"]
  have 3: "\<exists>p l'. hgs_to_hgc (\<lambda>t. Angle 30 Deg) ?c' (HeliographicCarrington (Some 0)) = Inr p
        \<and> spherical (data p) = (l', Angle 20 Deg, Quantity 1 AU) \<and> degrees l' = 40"
    by (simp add: f) blast
  from hgs_hgc_longitude_shift_wrapped [OF h1(2) h2(2) h3(2), of "\<lambda>t. Angle 30 Deg"]
  have 4: "\<exists>p l'. hgc_to_hgs (\<lambda>t. Angle 30 Deg) ?c' (HeliographicStonyhurst (Some 0)) = Inr p
        \<and> spherical (data p) = (l', Angle 20 Deg, Quantity 1 AU) \<and> degrees l' = - 20"
    by (simp add: f) blast
  from 1 2 3 4 show ?thesis
    by blast
qed

text \<open>
  Claim C7.  \<^verbatim>\<open>hgs_to_hgc\<close> and \<^verbatim>\<open>hgc_to_hgs\<close> raise an error, and so return no point, when
  the instant of the destination frame or of the coordinate is \<^verbatim>\<open>None\<close>, and when both are
  set and differ.  The error is a \<^verbatim>\<open>ValueError\<close> in each of these cases.
\<close>

theorem hgs_hgc_obstime_error:
  assumes "obstime f = None \<or> obstime c = None \<or> obstime c \<noteq> obstime f"
  shows "hgs_to_hgc L0 c f = Inl (ValueError ''hgs_to_hgc'')
       \<and> hgc_to_hgs L0 c f = Inl (ValueError ''hgc_to_hgs'')"
  using assms by (auto simp: hgs_to_hgc_def hgc_to_hgs_def)

theorem hgs_hgc_obstime_error_witness:
  "obstime \<lparr>obstime = Some (1::nat), observer = None,
       data = UnitSphericalRepresentation (Angle 10 Deg) (Angle 20 Deg)\<rparr>
     \<noteq> obstime (HeliographicCarrington (Some (2::nat)))
   \<and> hgs_to_hgc (\<lambda>t. Angle 30 Deg)
       \<lparr>obstime = Some (1::nat), observer = None,
          data = UnitSphericalRepresentation (Angle 10 Deg) (Angle 20 Deg)\<rparr>
       (HeliographicCarrington (Some 2)) = Inl (ValueError ''hgs_to_hgc'')
   \<and> hgc_to_hgs (\<lambda>t. Angle 30 Deg)
       \<lparr>obstime = Some (1::nat), observer = None,
          data = UnitSphericalRepresentation (Angle 10 Deg) (Angle 20 Deg)\<rparr>
       (HeliographicCarrington (Some 2)) = Inl (ValueError ''hgc_to_hgs'')
   \<and> hgs_to_hgc (\<lambda>t. Angle 30 Deg)
       \<lparr>obstime = None :: nat option, observer = None,
          data = UnitSphericalRepresentation (Angle 10 Deg) (Angle 20 Deg)\<rparr>
       (HeliographicCarrington (Some 2)) = Inl (ValueError ''hgs_to_hgc'')"
proof -
  let ?d = "UnitSphericalRepresentation (Angle 10 Deg) (Angle 20 Deg)"
  let ?c = "\<lparr>obstime = Some (1::nat), observer = None, data = ?d\<rparr>"
  let ?c' = "\<lparr>obstime = None :: nat option, observer = None, data = ?d\<rparr>"
  let ?f = "HeliographicCarrington (Some (2::nat))"
  have h: "obstime ?c \<noteq> obstime ?f"
    by (simp add: HeliographicCarrington_def)
  have h': "obstime ?c' = None"
    by simp
  show ?thesis
    using h hgs_hgc_obstime_error [of ?f ?c "\<lambda>t. Angle 30 Deg"]
      hgs_hgc_obstime_error [of ?f ?c' "\<lambda>t. Angle 30 Deg"] h'
    by simp
qed

section \<open>Transformations within one frame class\<close>

text \<open>
  Claim C9.  A transformation between two frames of one class whose parameters match returns
  the data of the input unchanged, attached to the destination frame: \<^verbatim>\<open>hgs_to_hgs\<close> and
  \<^verbatim>\<open>hgc_to_hgc\<close> when the two instants are equal, \<^verbatim>\<open>hcc_to_hcc\<close> when the observer
  comparison (which accepts two equal labels) answers true.  Nothing is computed on the data.
\<close>

theorem same_frame_identity:
  "(obstime c = obstime f \<longrightarrow>
      hgs_to_hgs to_h from_h c f = Inr (realize_frame f (data c))
    \<and> hgc_to_hgc L0 to_h from_h c f = Inr (realize_frame f (data c)))
   \<and> (getattr_observer c' = Inr src_obs \<and> getattr_observer f = Inr dst_obs
        \<and> observers_are_equal src_obs dst_obs True = Inr True \<longrightarrow>
      hcc_to_hcc rsun c' f = Inr (realize_frame f (data c')))
   \<and> data (realize_frame f r) = r
   \<and> obstime (realize_frame f r) = obstime f
   \<and> observer (realize_frame f r) = observer f"
  by (simp add: hgs_to_hgs_def hgc_to_hgc_def hcc_to_hcc_def realize_frame_def)

theorem same_frame_identity_witness:
  "hgs_to_hgs (\<lambda>c. Inr c) (\<lambda>h f. Inr h)
       \<lparr>obstime = Some (5::nat), observer = None,
          data = SphericalRepresentation (Angle 10 Deg) (Angle 20 Deg) (Quantity 1 AU)\<rparr>
       (HeliographicStonyhurst (Some 5))
     = Inr \<lparr>obstime = Some 5, observer = None,
          data = SphericalRepresentation (Angle 10 Deg) (Angle 20 Deg) (Quantity 1 AU)\<rparr>
   \<and> hgc_to_hgc (\<lambda>t. Angle 30 Deg) (\<lambda>c. Inr c) (\<lambda>h f. Inr h)
       \<lparr>obstime = Some (5::nat), observer = None,
          data = SphericalRepresentation (Angle 10 Deg) (Angle 20 Deg) (Quantity 1 AU)\<rparr>
       (HeliographicStonyhurst (Some 5))
     = Inr \<lparr>obstime = Some 5, observer = None,
          data = SphericalRepresentation (Angle 10 Deg) (Angle 20 Deg) (Quantity 1 AU)\<rparr>
   \<and> hcc_to_hcc 695700000
       \<lparr>obstime = None :: nat option, observer = Some (Label ''earth''),
          data = CartesianRepresentation (Quantity 1 Km) (Quantity 2 Km) (Quantity 3 Km)\<rparr>
       (Heliocentric (Label ''earth''))
     = Inr \<lparr>obstime = None, observer = Some (Label ''earth''),
          data = CartesianRepresentation (Quantity 1 Km) (Quantity 2 Km) (Quantity 3 Km)\<rparr>"
proof -
  let ?d = "SphericalRepresentation (Angle 10 Deg) (Angle 20 Deg) (Quantity 1 AU)"
  let ?c = "\<lparr>obstime = Some (5::nat), observer = None, data = ?d\<rparr>"
  let ?f = "HeliographicStonyhurst (Some (5::nat))"
  let ?d' = "CartesianRepresentation (Quantity 1 Km) (Quantity 2 Km) (Quantity 3 Km)"
  let ?c' = "\<lparr>obstime = None :: nat option, observer = Some (Label ''earth''), data = ?d'\<rparr>"
  let ?f' = "Heliocentric (Label ''earth'') :: nat frame"
  have h1: "obstime ?c = obstime ?f"
    by (simp add: HeliographicStonyhurst_def)
  have h2: "getattr_observer ?c' = Inr (Label ''earth'')"
    "getattr_observer ?f' = Inr (Label ''earth'')"
    "observers_are_equal (Label ''earth'') (Label ''earth'') True = Inr True"
    by (simp_all add: getattr_observer_def Heliocentric_def observers_are_equal_def)
  from h1 same_frame_identity [where c = ?c and f = ?f and to_h = "\<lambda>c. Inr c"
      and from_h = "\<lambda>h f. Inr h" and ?L0.0 = "\<lambda>t. Angle 30 Deg" and c' = ?c'
      and src_obs = "Label ''earth''" and dst_obs = "Label ''earth''" and rsun = 0 and r = ?d]
  have a: "hgs_to_hgs (\<lambda>c. Inr c) (\<lambda>h f. Inr h) ?c ?f = Inr (realize_frame ?f ?d)"
    "hgc_to_hgc (\<lambda>t. Angle 30 Deg) (\<lambda>c. Inr c) (\<lambda>h f. Inr h) ?c ?f = Inr (realize_frame ?f ?d)"
    by simp_all
  from h2 same_frame_identity [where c = ?c and f = ?f' and to_h = "\<lambda>c. Inr c"
      and from_h = "\<lambda>h f. Inr h" and ?L0.0 = "\<lambda>t. Angle 30 Deg" and c' = ?c'
      and src_obs = "Label ''earth''" and dst_obs = "Label ''earth''" and rsun = 695700000
      and r = ?d']
  have b: "hcc_to_hcc 695700000 ?c' ?f' = Inr (realize_frame ?f' ?d')"
    by simp
  from a b show ?thesis
    by (simp add: realize_frame_def HeliographicStonyhurst_def Heliocentric_def)
qed

section \<open>Heliocentric to Stonyhurst\<close>

text \<open>
  Claim C5 says that \<^verbatim>\<open>hcc_to_hgs\<close> fails whenever the observer of the destination frame is
  not a frame object.  The function never reads the destination's observer (a Stonyhurst
  frame has none): the observer it tests is that of the heliocentric coordinate it is given.
  With a source observer that is a frame object and the default Stonyhurst frame as
  destination, the point at 1 km on the axis towards the observer is transformed.
\<close>

theorem hcc_to_hgs_destination_observer_counterexample:
  "\<not> has_geometric_observer (HeliographicStonyhurst (None :: nat option))
   \<and> hcc_to_hgs
       \<lparr>obstime = None, observer = Some (Observer (Angle 0 Deg) (Angle 0 Deg) (Quantity 1 AU)),
          data = CartesianRepresentation (Quantity 0 Km) (Quantity 0 Km) (Quantity 1 Km)\<rparr>
       (HeliographicStonyhurst (None :: nat option))
     = Inr \<lparr>obstime = None, observer = None,
          data = SphericalRepresentation (Angle 0 Deg) (Angle 0 Deg) (Quantity 1 Km)\<rparr>"
  by (simp add: has_geometric_observer_def HeliographicStonyhurst_def hcc_to_hgs_def
        getattr_observer_def q_to_def np_cos_def np_sin_def np_deg2rad_def a_to_def
        np_sqrt_sum_squares_def q_sub_def q_add_def q_scale_def np_arctan2_def q_ratio_def
        a_add_def np_arcsin_def np_rad2deg_def realize_frame_def wrap_at_def
        HeliographicStonyhurst_wrap_angle_def)

text \<open>
  Claim C5 as amended.  \<^verbatim>\<open>hcc_to_hgs\<close> fails with an error whenever the observer of the
  source coordinate is not a frame object, whatever the destination frame (with a
  \<^verbatim>\<open>ConvertError\<close> when that observer is a label), and it returns a point when the source
  observer is a frame object and the Cartesian components are lengths.
\<close>

theorem hcc_to_hgs_source_observer:
  "(\<not> has_geometric_observer c \<longrightarrow> (\<exists>e. hcc_to_hgs c f = Inl e))
   \<and> (observer c = Some (Label s) \<longrightarrow> hcc_to_hgs c f = Inl (ConvertError ''hcc_to_hgs''))
   \<and> (has_geometric_observer c \<and> is_length (rep_x (data c)) \<and> is_length (rep_y (data c))
        \<and> is_length (rep_z (data c)) \<longrightarrow> (\<exists>p. hcc_to_hgs c f = Inr p))"
proof (cases "observer c")
  case None
  then show ?thesis
    by (simp add: has_geometric_observer_def hcc_to_hgs_def getattr_observer_def)
next
  case (Some ob)
  show ?thesis
  proof (cases ob)
    case (Label s')
    with Some show ?thesis
      by (simp add: has_geometric_observer_def hcc_to_hgs_def getattr_observer_def)
  next
    case (Observer b l r)
    with Some show ?thesis
      by (simp add: has_geometric_observer_def hcc_to_hgs_def getattr_observer_def Let_def
          np_sqrt_sum_squares_def q_sub_def q_add_def q_scale_def np_arctan2_def q_ratio_def
          is_length_def q_to_def)
  qed
qed

theorem hcc_to_hgs_source_observer_witness:
  "\<not> has_geometric_observer
       \<lparr>obstime = None :: nat option, observer = Some (Label ''earth''),
          data = CartesianRepresentation (Quantity 0 Km) (Quantity 0 Km) (Quantity 1 Km)\<rparr>
   \<and> hcc_to_hgs
       \<lparr>obstime = None :: nat option, observer = Some (Label ''earth''),
          data = CartesianRepresentation (Quantity 0 Km) (Quantity 0 Km) (Quantity 1 Km)\<rparr>
       \<lparr>obstime = None, observer = Some (Observer (Angle 0 Deg) (Angle 0 Deg) (Quantity 1 AU))\<rparr>
     = Inl (ConvertError ''hcc_to_hgs'')
   \<and> has_geometric_observer
       \<lparr>obstime = None :: nat option,
          observer = Some (Observer (Angle 0 Deg) (Angle 0 Deg) (Quantity 1 AU)),
          data = CartesianRepresentation (Quantity 0 Km) (Quantity 0 Km) (Quantity 1 Km)\<rparr>
   \<and> (\<exists>p. hcc_to_hgs
       \<lparr>obstime = None :: nat option,
          observer = Some (Observer (Angle 0 Deg) (Angle 0 Deg) (Quantity 1 AU)),
          data = CartesianRepresentation (Quantity 0 Km) (Quantity 0 Km) (Quantity 1 Km)\<rparr>
       (HeliographicStonyhurst None) = Inr p)"
proof -
  let ?d = "CartesianRepresentation (Quantity 0 Km) (Quantity 0 Km) (Quantity 1 Km)"
  let ?c = "\<lparr>obstime = None :: nat option, observer = Some (Label ''earth''), data = ?d\<rparr>"
  let ?g = "\<lparr>obstime = None :: nat option,
          observer = Some (Observer (Angle 0 Deg) (Angle 0 Deg) (Quantity 1 AU)), data = ?d\<rparr>"
  let ?f = "\<lparr>obstime = None :: nat option,
          observer = Some (Observer (Angle 0 Deg) (Angle 0 Deg) (Quantity 1 AU))\<rparr>"
  have h1: "\<not> has_geometric_observer ?c" "observer ?c = Some (Label ''earth'')"
    by (simp_all add: has_geometric_observer_def)
  have h2: "has_geometric_observer ?g" "is_length (rep_x (data ?g))"
    "is_length (rep_y (data ?g))" "is_length (rep_z (data ?g))"
    by (simp_all add: has_geometric_observer_def is_length_def)
  from h1 hcc_to_hgs_source_observer [of ?c ?f "''earth''"]
  have a: "hcc_to_hgs ?c ?f = Inl (ConvertError ''hcc_to_hgs'')"
    by simp
  from h2 hcc_to_hgs_source_observer [of ?g "HeliographicStonyhurst None"]
  have b: "\<exists>p. hcc_to_hgs ?g (HeliographicStonyhurst None) = Inr p"
    by simp
  from h1 h2 a b show ?thesis
    by simp
qed

section \<open>Label observers in the helioprojective transformations\<close>

text \<open>
  Claim C6 expects a \<^verbatim>\<open>ConvertError\<close> from \<^verbatim>\<open>hpc_to_hpc\<close> when the two observers are not
  identical and one of them is a label.  The function has the two branches that raise it,
  but its first condition reads \<^verbatim>\<open>.lat\<close> of both observers as soon as they are not equal
  as values, and a string has no such attribute: what is raised there is an
  \<^verbatim>\<open>AttributeError\<close>, and the branches that raise \<^verbatim>\<open>ConvertError\<close> are never reached with a
  label.
\<close>

theorem hpc_to_hpc_label_observer_error:
  assumes "getattr_observer c = Inr src_obs" and "getattr_observer f = Inr dst_obs"
    and "src_obs \<noteq> dst_obs"
    and "\<not> (isinstance_BaseCoordinateFrame src_obs \<and> isinstance_BaseCoordinateFrame dst_obs)"
  shows "hpc_to_hpc transform_to_hgs transform_to_hpc c f = Inl (AttributeError ''lat'')"
  using assms by (cases src_obs; cases dst_obs) (simp_all add: hpc_to_hpc_def)

theorem hpc_to_hpc_label_observer_error_witness:
  "hpc_to_hpc (\<lambda>c f. Inr c) (\<lambda>c f. Inr c)
     \<lparr>obstime = None :: nat option, observer = Some (Label ''earth''),
        data = UnitSphericalRepresentation (Angle 0 Arcsec) (Angle 0 Arcsec)\<rparr>
     \<lparr>obstime = None, observer = Some (Observer (Angle 0 Deg) (Angle 0 Deg) (Quantity 1 AU))\<rparr>
   = Inl (AttributeError ''lat'')"
proof -
  let ?c = "\<lparr>obstime = None :: nat option, observer = Some (Label ''earth''),
        data = UnitSphericalRepresentation (Angle 0 Arcsec) (Angle 0 Arcsec)\<rparr>"
  let ?ob = "Observer (Angle 0 Deg) (Angle 0 Deg) (Quantity 1 AU)"
  let ?f = "\<lparr>obstime = None :: nat option, observer = Some ?ob\<rparr>"
  have h: "getattr_observer ?c = Inr (Label ''earth'')" "getattr_observer ?f = Inr ?ob"
    "Label ''earth'' \<noteq> ?ob"
    "\<not> (isinstance_BaseCoordinateFrame (Label ''earth'') \<and> isinstance_BaseCoordinateFrame ?ob)"
    by (simp_all add: getattr_observer_def)
  show ?thesis
    by (rule hpc_to_hpc_label_observer_error [OF h])
qed

text \<open>Which errors the functions called by \<^verbatim>\<open>hpc_to_hcc\<close> can return.\<close>

lemma observers_are_equal_error:
  "observers_are_equal a b s = Inl e \<Longrightarrow>
     e = ValueError ''_observers_are_equal'' \<or> e = UnitConversionError"
  by (cases a; cases b)
     (auto simp: observers_are_equal_def q_allclose_def q_to_def ebind_eq_Inl split: if_splits)

lemma observers_are_equal_labels:
  "\<not> (isinstance_BaseCoordinateFrame a \<and> isinstance_BaseCoordinateFrame b) \<Longrightarrow>
     observers_are_equal a b False = Inl (ValueError ''_observers_are_equal'')"
  by (simp add: observers_are_equal_def)

lemma observers_are_equal_geometric:
  "observers_are_equal a b False = Inr v \<Longrightarrow>
     isinstance_BaseCoordinateFrame a \<and> isinstance_BaseCoordinateFrame b"
  by (auto simp: observers_are_equal_def split: if_splits)

lemma hcc_to_hgs_error:
  "hcc_to_hgs c f = Inl e \<Longrightarrow>
     e = AttributeError ''observer'' \<or> e = ConvertError ''hcc_to_hgs'' \<or> e = UnitConversionError"
proof (cases "observer c")
  case None
  assume "hcc_to_hgs c f = Inl e"
  with None show ?thesis
    by (simp add: hcc_to_hgs_def getattr_observer_def)
next
  case (Some ob)
  assume "hcc_to_hgs c f = Inl e"
  with Some show ?thesis
    by (cases ob)
       (auto simp: hcc_to_hgs_def getattr_observer_def Let_def ebind_eq_Inl
          np_sqrt_sum_squares_def q_sub_def q_add_def np_arctan2_def q_ratio_def
          dest!: q_to_error)
qed

lemma hgs_to_hcc_error:
  "hgs_to_hcc rsun c f = Inl e \<Longrightarrow>
     e = AttributeError ''observer'' \<or> e = ConvertError ''hgs_to_hcc'' \<or> e = UnitConversionError"
proof (cases "observer f")
  case None
  assume "hgs_to_hcc rsun c f = Inl e"
  with None show ?thesis
    by (simp add: hgs_to_hcc_def getattr_observer_def Let_def split: prod.splits)
next
  case (Some ob)
  assume "hgs_to_hcc rsun c f = Inl e"
  with Some show ?thesis
    by (cases ob)
       (auto simp: hgs_to_hcc_def getattr_observer_def Let_def ebind_eq_Inl
          split: prod.splits dest!: q_to_error)
qed

lemma hcc_to_hcc_error:
  "hcc_to_hcc rsun c f = Inl e \<Longrightarrow> e \<noteq> ConvertError ''hpc_to_hcc''"
  by (auto simp: hcc_to_hcc_def ebind_eq_Inl getattr_observer_def Let_def
      split: option.splits if_splits
      dest!: observers_are_equal_error hcc_to_hgs_error hgs_to_hcc_error)

lemma hpc_to_hcc_labels:
  assumes "getattr_observer c = Inr obs_1" and "getattr_observer f = Inr obs_2"
    and "\<not> (isinstance_BaseCoordinateFrame obs_1 \<and> isinstance_BaseCoordinateFrame obs_2)"
  shows "hpc_to_hcc rsun cd c f = Inl (ValueError ''_observers_are_equal'')"
  using assms by (subst hpc_to_hcc.simps) (simp add: observers_are_equal_labels)

lemma hpc_to_hcc_no_convert_error:
  "(\<forall>p. cd p \<noteq> Inl (ConvertError ''hpc_to_hcc'')) \<Longrightarrow>
     hpc_to_hcc rsun cd c f \<noteq> Inl (ConvertError ''hpc_to_hcc'')"
proof (induction rsun cd c f rule: hpc_to_hcc.induct)
  case (1 rsun cd c f)
  note cd = \<open>\<forall>p. cd p \<noteq> Inl (ConvertError ''hpc_to_hcc'')\<close>
  show ?case
  proof (cases "getattr_observer c")
    case (Inl e)
    then show ?thesis
      by (subst hpc_to_hcc.simps) (auto simp: getattr_observer_def split: option.splits)
  next
    case o1: (Inr obs_1)
    show ?thesis
    proof (cases "getattr_observer f")
      case (Inl e)
      with o1 show ?thesis
        by (subst hpc_to_hcc.simps) (auto simp: getattr_observer_def split: option.splits)
    next
      case o2: (Inr obs_2)
      show ?thesis
      proof (cases "observers_are_equal obs_1 obs_2 False")
        case (Inl e)
        with o1 o2 show ?thesis
          by (subst hpc_to_hcc.simps) (auto dest: observers_are_equal_error)
      next
        case eq: (Inr eq)
        show ?thesis
        proof (cases eq)
          case False
          with o1 o2 eq "1.IH" [OF o1 o2 eq _ cd] show ?thesis
            by (subst hpc_to_hcc.simps) (auto split: sum.splits dest: hcc_to_hcc_error)
        next
          case True
          with eq have g: "isinstance_BaseCoordinateFrame obs_1"
            by (auto dest: observers_are_equal_geometric)
          from cd have cd': "cd c \<noteq> Inl (ConvertError ''hpc_to_hcc'')"
            by blast
          from o1 o2 eq True g cd' show ?thesis
            by (subst hpc_to_hcc.simps)
               (auto simp: ebind_eq_Inl Let_def q_sub_def getattr_observer_def
                  split: prod.splits option.splits dest!: q_to_error
                  elim!: attr_radius.elims)
        qed
      qed
    qed
  qed
qed

text \<open>
  Claim C10.  In \<^verbatim>\<open>hpc_to_hcc\<close>, when the observer of the coordinate or of the frame is not
  a frame object (two equal labels included), the comparison of the observers, called
  without \<^verbatim>\<open>string_ok\<close>, raises its \<^verbatim>\<open>ValueError\<close>.  The test that guards the function's own
  \<^verbatim>\<open>ConvertError\<close> is reached only after the comparison has returned true, and then the
  observer is a frame object: the function never returns that \<^verbatim>\<open>ConvertError\<close> (given that
  \<^verbatim>\<open>calculate_distance\<close>, a parameter here, does not produce it).
\<close>

theorem hpc_to_hcc_convert_error_unreachable:
  "(getattr_observer c = Inr src_obs \<and> getattr_observer f = Inr dst_obs
      \<and> \<not> (isinstance_BaseCoordinateFrame src_obs \<and> isinstance_BaseCoordinateFrame dst_obs)
     \<longrightarrow> hpc_to_hcc rsun cd c f = Inl (ValueError ''_observers_are_equal''))
   \<and> (observers_are_equal src_obs dst_obs False = Inr True
     \<longrightarrow> isinstance_BaseCoordinateFrame src_obs)
   \<and> ((\<forall>p. cd p \<noteq> Inl (ConvertError ''hpc_to_hcc''))
     \<longrightarrow> hpc_to_hcc rsun cd c f \<noteq> Inl (ConvertError ''hpc_to_hcc''))"
  using hpc_to_hcc_labels [of c src_obs f dst_obs rsun cd]
    observers_are_equal_geometric [of src_obs dst_obs True]
    hpc_to_hcc_no_convert_error [of cd rsun c f]
  by blast

theorem hpc_to_hcc_convert_error_unreachable_witness:
  "hpc_to_hcc 695700000 (\<lambda>c. Inr c)
     \<lparr>obstime = None :: nat option, observer = Some (Label ''earth''),
        data = UnitSphericalRepresentation (Angle 0 Arcsec) (Angle 0 Arcsec)\<rparr>
     (Heliocentric (Label ''earth''))
   = Inl (ValueError ''_observers_are_equal'')
   \<and> hpc_to_hcc 695700000 (\<lambda>c. Inr c)
     \<lparr>obstime = None :: nat option, observer = Some (Label ''earth''),
        data = UnitSphericalRepresentation (Angle 0 Arcsec) (Angle 0 Arcsec)\<rparr>
     (Heliocentric (Observer (Angle 0 Deg) (Angle 0 Deg) (Quantity 1 AU)))
   \<noteq> Inl (ConvertError ''hpc_to_hcc'')"
proof -
  let ?c = "\<lparr>obstime = None :: nat option, observer = Some (Label ''earth''),
        data = UnitSphericalRepresentation (Angle 0 Arcsec) (Angle 0 Arcsec)\<rparr>"
  let ?f = "Heliocentric (Label ''earth'') :: nat frame"
  let ?g = "Heliocentric (Observer (Angle 0 Deg) (Angle 0 Deg) (Quantity 1 AU)) :: nat frame"
  let ?cd = "\<lambda>c :: (nat, SphericalData) coord. Inr c :: error + (nat, SphericalData) coord"
  have h: "getattr_observer ?c = Inr (Label ''earth'')"
    "getattr_observer ?f = Inr (Label ''earth'')"
    "\<not> (isinstance_BaseCoordinateFrame (Label ''earth'')
        \<and> isinstance_BaseCoordinateFrame (Label ''earth''))"
    "\<forall>p. ?cd p \<noteq> Inl (ConvertError ''hpc_to_hcc'')"
    by (simp_all add: getattr_observer_def Heliocentric_def)
  from h hpc_to_hcc_convert_error_unreachable [where c = ?c and f = ?f
      and src_obs = "Label ''earth''" and dst_obs = "Label ''earth''"
      and rsun = 695700000 and cd = ?cd]
  have a: "hpc_to_hcc 695700000 ?cd ?c ?f = Inl (ValueError ''_observers_are_equal'')"
    by blast
  from h hpc_to_hcc_convert_error_unreachable [where c = ?c and f = ?g
      and src_obs = "Label ''earth''" and dst_obs = "Label ''earth''"
      and rsun = 695700000 and cd = ?cd]
  have b: "hpc_to_hcc 695700000 ?cd ?c ?g \<noteq> Inl (ConvertError ''hpc_to_hcc'')"
    by blast
  from a b show ?thesis
    by simp
qed

section \<open>Heliocentric to helioprojective\<close>

text \<open>
  Claim C1 gives the projected longitude as \<open>arctan2 x (D - z)\<close> in degrees.  A point on the
  line from the Sun through the observer, beyond the observer, has \<open>x = 0\<close> and \<open>D - z < 0\<close>,
  where the arctangent is \<open>180\<close> degrees; the helioprojective frame keeps its longitudes below
  \<open>180\<close> degrees, and the longitude of the result is \<open>-180\<close> degrees.
\<close>

theorem hcc_to_hpc_opposite_longitude_counterexample:
  "hcc_to_hpc 695700000
     \<lparr>obstime = None :: nat option,
        observer = Some (Observer (Angle 0 Deg) (Angle 0 Deg) (Quantity 1 AU)),
        data = CartesianRepresentation (Quantity 0 Km) (Quantity 0 Km) (Quantity 2 AU)\<rparr>
     \<lparr>obstime = None,
        observer = Some (Observer (Angle 0 Deg) (Angle 0 Deg) (Quantity 1 AU))\<rparr>
   = Inr \<lparr>obstime = None,
        observer = Some (Observer (Angle 0 Deg) (Angle 0 Deg) (Quantity 1 AU)),
        data = SphericalRepresentation (Angle (- 180) Deg) (Angle 0 Deg)
                 (Quantity (1495978707 / 10) Km)\<rparr>
   \<and> arctan2 (metres (Quantity 0 Km)) (metres (Quantity 1 AU) - metres (Quantity 2 AU))
       * 180 / pi = 180"
proof -
  let ?ob = "Observer (Angle 0 Deg) (Angle 0 Deg) (Quantity 1 AU)"
  have eq: "observers_are_equal ?ob ?ob False = Inr True"
    by (simp add: observers_are_equal_def a_allclose_def q_allclose_def q_to_def a_to_def
        rtol_def)
  have r: "sqrt ((149597870700 :: real)\<^sup>2) = 149597870700"
    by simp
  have f: "\<lfloor>180 / 360 :: real\<rfloor> = 0"
    by (simp add: floor_eq_iff)
  have "hcc_to_hpc 695700000
     \<lparr>obstime = None :: nat option, observer = Some ?ob,
        data = CartesianRepresentation (Quantity 0 Km) (Quantity 0 Km) (Quantity 2 AU)\<rparr>
     \<lparr>obstime = None, observer = Some ?ob\<rparr>
   = Inr \<lparr>obstime = None, observer = Some ?ob,
        data = SphericalRepresentation (Angle (- 180) Deg) (Angle 0 Deg)
                 (Quantity (1495978707 / 10) Km)\<rparr>"
    by (simp add: hcc_to_hpc_def getattr_observer_def eq q_to_def q_sub_def
        np_sqrt_sum_squares_def np_arctan2_def q_ratio_def np_arcsin_def np_rad2deg_def a_to_def
        realize_frame_def Let_def arctan2_def wrap_at_def Helioprojective_wrap_angle_def r f)
  moreover have "arctan2 (metres (Quantity 0 Km)) (metres (Quantity 1 AU) - metres (Quantity 2 AU))
       * 180 / pi = 180"
    by (simp add: arctan2_def)
  ultimately show ?thesis
    by (rule conjI)
qed

text \<open>
  Claim C1 as amended.  Let \<open>c'\<close> be the heliocentric coordinate that \<^verbatim>\<open>hcc_to_hpc\<close> works
  on: the input itself when its observer and the observer of the destination agree, and the
  input transformed by \<^verbatim>\<open>hcc_to_hcc\<close> to the destination's observer when they differ.  With
  components \<open>x\<close>, \<open>y\<close>, \<open>z\<close> of \<open>c'\<close> (lengths, read in metres) and its observer at radius
  \<open>D\<close>, the function returns a full spherical point in the destination frame whose distance
  is \<open>sqrt (x\<^sup>2 + y\<^sup>2 + (D - z)\<^sup>2)\<close>, whose longitude is \<open>arctan2 x (D - z)\<close> in degrees,
  except that it is \<open>-180\<close> degrees where the arctangent is \<open>180\<close> degrees (\<open>x = 0\<close> and
  \<open>D < z\<close>), and whose latitude is \<open>arcsin (y / distance)\<close> in degrees.  The latitude is
  stated for a distance other than zero: at zero the quotient is \<open>0 / 0\<close>, which numpy
  evaluates to NaN.
\<close>

theorem hcc_to_hpc_projection_wrapped:
  assumes "getattr_observer c = Inr src_obs" and "getattr_observer f = Inr dst_obs"
    and "observers_are_equal src_obs dst_obs False = Inr eq"
    and "(if \<not> eq then hcc_to_hcc rsun c (Heliocentric dst_obs) else Inr c) = Inr c'"
    and "data c' = CartesianRepresentation x y z"
    and "is_length x" and "is_length y" and "is_length z"
    and "observer c' = Some (Observer b l D)" and "is_length D"
  shows "\<exists>Tx Ty d. hcc_to_hpc rsun c f = Inr (realize_frame f (SphericalRepresentation Tx Ty d))
      \<and> is_length d
      \<and> metres d = sqrt ((metres x)\<^sup>2 + (metres y)\<^sup>2 + (metres D - metres z)\<^sup>2)
      \<and> (\<not> (metres x = 0 \<and> metres D < metres z)
           \<longrightarrow> degrees Tx = arctan2 (metres x) (metres D - metres z) * 180 / pi)
      \<and> (metres x = 0 \<and> metres D < metres z \<longrightarrow> degrees Tx = - 180)
      \<and> (metres d \<noteq> 0 \<longrightarrow> degrees Ty = arcsin (metres y / metres d) * 180 / pi)"
proof -
  let ?w = "metres D - metres z"
  let ?r = "sqrt ((metres x)\<^sup>2 + (metres y)\<^sup>2 + ?w\<^sup>2)"
  let ?a = "arctan2 (metres x) ?w"
  let ?Tx = "wrap_at Helioprojective_wrap_angle
      (wrap_at (Angle 360 Deg) (np_rad2deg (Angle ?a Rad)))"
  let ?Ty = "np_rad2deg (Angle (arcsin (metres y / ?r)) Rad)"
  let ?d = "Quantity (?r / 1000) Km"
  have w: "q_sub D (Quantity (metres z) M)
      = Inr (Quantity (?w / qscale (q_unit D)) (q_unit D))"
    using \<open>is_length D\<close>
    by (simp add: q_sub_def q_to_def is_length_def metres_def field_simps)
  have "hcc_to_hpc rsun c f = Inr (realize_frame f (SphericalRepresentation ?Tx ?Ty ?d))"
    using assms w
    by (simp add: hcc_to_hpc_def getattr_observer_def Let_def np_sqrt_sum_squares_def
        np_arctan2_def q_ratio_def np_arcsin_def is_length_def q_to_def metres_def)
  moreover have "is_length ?d" "metres ?d = ?r"
    by (simp_all add: is_length_def)
  moreover have "degrees ?Ty = arcsin (metres y / metres ?d) * 180 / pi"
    by simp
  moreover have rad: "radians ?Tx = wrap_radians pi ?a"
    by (simp add: radians_wrap_at Helioprojective_wrap_angle_def)
  have "degrees ?Tx = ?a * 180 / pi" if "\<not> (metres x = 0 \<and> metres D < metres z)"
  proof -
    from that have "?a \<noteq> pi"
      by (simp add: arctan2_eq_pi)
    with arctan2_range [of "metres x" ?w] have "pi - 2 * pi \<le> ?a" "?a < pi"
      by simp_all
    then have "wrap_radians pi ?a = ?a"
      by (rule wrap_radians_id)
    then show ?thesis
      unfolding degrees_def rad by simp
  qed
  moreover have "degrees ?Tx = - 180" if "metres x = 0 \<and> metres D < metres z"
  proof -
    from that have "?a = pi"
      by (simp add: arctan2_eq_pi)
    then have "wrap_radians pi ?a = - pi"
      by (simp add: wrap_radians_top)
    then show ?thesis
      unfolding degrees_def rad by simp
  qed
  ultimately show ?thesis
    by blast
qed

theorem hcc_to_hpc_projection_wrapped_witness:
  "(\<exists>Tx Ty d. hcc_to_hpc 695700000
       \<lparr>obstime = None :: nat option,
          observer = Some (Observer (Angle 0 Deg) (Angle 0 Deg) (Quantity 5 Km)),
          data = CartesianRepresentation (Quantity 0 Km) (Quantity 3000 M) (Quantity 1 Km)\<rparr>
       (Heliocentric (Observer (Angle 0 Deg) (Angle 0 Deg) (Quantity 5 Km)))
     = Inr (realize_frame
         (Heliocentric (Observer (Angle 0 Deg) (Angle 0 Deg) (Quantity 5 Km)) :: nat frame)
         (SphericalRepresentation Tx Ty d))
     \<and> metres d = 5000
     \<and> degrees Tx = 0
     \<and> degrees Ty = arcsin (3 / 5) * 180 / pi)
   \<and> (\<exists>Tx Ty d. hcc_to_hpc 695700000
       \<lparr>obstime = None :: nat option,
          observer = Some (Observer (Angle 0 Deg) (Angle 0 Deg) (Quantity 5 Km)),
          data = CartesianRepresentation (Quantity 0 Km) (Quantity 3000 M) (Quantity 9 Km)\<rparr>
       (Heliocentric (Observer (Angle 0 Deg) (Angle 0 Deg) (Quantity 5 Km)))
     = Inr (realize_frame
         (Heliocentric (Observer (Angle 0 Deg) (Angle 0 Deg) (Quantity 5 Km)) :: nat frame)
         (SphericalRepresentation Tx Ty d))
     \<and> metres d = 5000
     \<and> degrees Tx = - 180
     \<and> degrees Ty = arcsin (3 / 5) * 180 / pi)"
proof -
  let ?ob = "Observer (Angle 0 Deg) (Angle 0 Deg) (Quantity 5 Km)"
  let ?x = "Quantity 0 Km"
  let ?y = "Quantity 3000 M"
  let ?z = "Quantity 1 Km"
  let ?z' = "Quantity 9 Km"
  let ?c = "\<lparr>obstime = None :: nat option, observer = Some ?ob,
          data = CartesianRepresentation ?x ?y ?z\<rparr>"
  let ?c' = "\<lparr>obstime = None :: nat option, observer = Some ?ob,
          data = CartesianRepresentation ?x ?y ?z'\<rparr>"
  let ?f = "Heliocentric ?ob :: nat frame"
  have h1: "getattr_observer ?c = Inr ?ob" "getattr_observer ?f = Inr ?ob"
    "getattr_observer ?c' = Inr ?ob"
    by (simp_all add: getattr_observer_def Heliocentric_def)
  have h2: "observers_are_equal ?ob ?ob False = Inr True"
    by (simp add: observers_are_equal_def a_allclose_def q_allclose_def q_to_def a_to_def
        rtol_def)
  have h3: "(if \<not> True then hcc_to_hcc 695700000 ?c (Heliocentric ?ob) else Inr ?c) = Inr ?c"
    "(if \<not> True then hcc_to_hcc 695700000 ?c' (Heliocentric ?ob) else Inr ?c') = Inr ?c'"
    by simp_all
  have h4: "data ?c = CartesianRepresentation ?x ?y ?z" "is_length ?x" "is_length ?y"
    "is_length ?z" "observer ?c = Some ?ob" "is_length (Quantity 5 Km)"
    "data ?c' = CartesianRepresentation ?x ?y ?z'" "is_length ?z'" "observer ?c' = Some ?ob"
    by (simp_all add: is_length_def)
  have r: "sqrt ((metres ?x)\<^sup>2 + (metres ?y)\<^sup>2 + (metres (Quantity 5 Km) - metres ?z)\<^sup>2) = 5000"
    "sqrt ((metres ?x)\<^sup>2 + (metres ?y)\<^sup>2 + (metres (Quantity 5 Km) - metres ?z')\<^sup>2) = 5000"
  proof -
    have "(metres ?x)\<^sup>2 + (metres ?y)\<^sup>2 + (metres (Quantity 5 Km) - metres ?z)\<^sup>2
        = (5000::real)\<^sup>2"
      "(metres ?x)\<^sup>2 + (metres ?y)\<^sup>2 + (metres (Quantity 5 Km) - metres ?z')\<^sup>2
        = (5000::real)\<^sup>2"
      by simp_all
    then show
      "sqrt ((metres ?x)\<^sup>2 + (metres ?y)\<^sup>2 + (metres (Quantity 5 Km) - metres ?z)\<^sup>2) = 5000"
      "sqrt ((metres ?x)\<^sup>2 + (metres ?y)\<^sup>2 + (metres (Quantity 5 Km) - metres ?z')\<^sup>2) = 5000"
      by (simp_all only: real_sqrt_abs)
  qed
  from hcc_to_hpc_projection_wrapped [OF h1(1) h1(2) h2 h3(1) h4(1) h4(2) h4(3) h4(4) h4(5) h4(6)]
  obtain Tx Ty d where
    res: "hcc_to_hpc 695700000 ?c ?f = Inr (realize_frame ?f (SphericalRepresentation Tx Ty d))"
    and d: "metres d
        = sqrt ((metres ?x)\<^sup>2 + (metres ?y)\<^sup>2 + (metres (Quantity 5 Km) - metres ?z)\<^sup>2)"
    and tx: "\<not> (metres ?x = 0 \<and> metres (Quantity 5 Km) < metres ?z)
        \<longrightarrow> degrees Tx = arctan2 (metres ?x) (metres (Quantity 5 Km) - metres ?z) * 180 / pi"
    and ty: "metres d \<noteq> 0 \<longrightarrow> degrees Ty = arcsin (metres ?y / metres d) * 180 / pi"
    by blast
  from d r have d': "metres d = 5000"
    by simp
  from tx have tx': "degrees Tx = 0"
    by simp
  from ty d' have ty': "degrees Ty = arcsin (3 / 5) * 180 / pi"
    by simp
  from res d' tx' ty' have 1: "\<exists>Tx Ty d. hcc_to_hpc 695700000 ?c ?f
     = Inr (realize_frame ?f (SphericalRepresentation Tx Ty d))
     \<and> metres d = 5000 \<and> degrees Tx = 0 \<and> degrees Ty = arcsin (3 / 5) * 180 / pi"
    by blast
  from hcc_to_hpc_projection_wrapped [OF h1(3) h1(2) h2 h3(2) h4(7) h4(2) h4(3) h4(8) h4(9) h4(6)]
  obtain Tx Ty d where
    res: "hcc_to_hpc 695700000 ?c' ?f = Inr (realize_frame ?f (SphericalRepresentation Tx Ty d))"
    and d: "metres d
        = sqrt ((metres ?x)\<^sup>2 + (metres ?y)\<^sup>2 + (metres (Quantity 5 Km) - metres ?z')\<^sup>2)"
    and tx: "metres ?x = 0 \<and> metres (Quantity 5 Km) < metres ?z' \<longrightarrow> degrees Tx = - 180"
    and ty: "metres d \<noteq> 0 \<longrightarrow> degrees Ty = arcsin (metres ?y / metres d) * 180 / pi"
    by blast
  from d r have d': "metres d = 5000"
    by simp
  from tx have tx': "degrees Tx = - 180"
    by simp
  from ty d' have ty': "degrees Ty = arcsin (3 / 5) * 180 / pi"
    by simp
  from res d' tx' ty' have 2: "\<exists>Tx Ty d. hcc_to_hpc 695700000 ?c' ?f
     = Inr (realize_frame ?f (SphericalRepresentation Tx Ty d))
     \<and> metres d = 5000 \<and> degrees Tx = - 180 \<and> degrees Ty = arcsin (3 / 5) * 180 / pi"
    by blast
  from 1 2 show ?thesis
    by (rule conjI)
qed

section \<open>Stonyhurst to heliocentric\<close>

lemma hgs_to_hcc_replaced:
  assumes "spherical (data c) = (l, b, r)" and "q_unit r = One" and "approx_one r"
  shows "hgs_to_hcc rsun c f
       = hgs_to_hcc rsun (c\<lparr>data := SphericalRepresentation l b (RSUN_METERS rsun)\<rparr>) f"
  using assms
  by (simp add: hgs_to_hcc_def Let_def q_mul_one_def np_ones_like_def RSUN_METERS_def
      approx_one_def cong: if_cong)

lemma hgs_to_hcc_length:
  assumes "spherical (data c) = (l, b, r)" and "is_length r"
    and "observer f = Some (Observer b0 l0 D)"
  shows "\<exists>x y z. hgs_to_hcc rsun c f = Inr (realize_frame f (CartesianRepresentation x y z))
      \<and> metres x = metres r * cos (radians b) * sin (radians l - radians l0)
      \<and> metres y = metres r * (sin (radians b) * cos (radians b0)
                       - cos (radians b) * cos (radians l - radians l0) * sin (radians b0))
      \<and> metres z = metres r * (sin (radians b) * sin (radians b0)
                       + cos (radians b) * cos (radians l - radians l0) * cos (radians b0))"
proof -
  let ?lon = "radians l - radians l0"
  let ?x = "Quantity (metres r * cos (radians b) * sin ?lon / 1000) Km"
  let ?y = "Quantity (metres r * (sin (radians b) * cos (radians b0)
                       - cos (radians b) * cos ?lon * sin (radians b0)) / 1000) Km"
  let ?z = "Quantity (metres r * (sin (radians b) * sin (radians b0)
                       + cos (radians b) * cos ?lon * cos (radians b0)) / 1000) Km"
  from \<open>is_length r\<close> have u: "q_unit r \<noteq> One" "dimension_of (q_unit r) = Length"
    by (auto simp: is_length_def)
  have "hgs_to_hcc rsun c f = Inr (realize_frame f (CartesianRepresentation ?x ?y ?z))"
    using assms u
    by (simp add: hgs_to_hcc_def Let_def getattr_observer_def q_scale_def q_to_def
        np_cos_radians np_sin_radians metres_def algebra_simps)
  moreover have "metres ?x = metres r * cos (radians b) * sin ?lon"
    by simp
  moreover have "metres ?y = metres r * (sin (radians b) * cos (radians b0)
                       - cos (radians b) * cos ?lon * sin (radians b0))"
    by simp
  moreover have "metres ?z = metres r * (sin (radians b) * sin (radians b0)
                       + cos (radians b) * cos ?lon * cos (radians b0))"
    by simp
  ultimately show ?thesis
    by blast
qed

lemma hgs_to_hcc_dimensionless:
  assumes "spherical (data c) = (l, b, r)" and "q_unit r = One" and "\<not> approx_one r"
    and "observer f = Some (Observer b0 l0 D)"
  shows "hgs_to_hcc rsun c f = Inl UnitConversionError"
  using assms
  by (simp add: hgs_to_hcc_def Let_def getattr_observer_def q_scale_def q_to_def
      approx_one_def)

text \<open>
  Claim C8.  In \<^verbatim>\<open>hgs_to_hcc\<close>, a radial distance that is dimensionless and approximately
  \<open>1\<close> is replaced by one solar radius in metres before anything else is computed: the
  result is that of the same call on the point with distance \<^verbatim>\<open>RSUN_METERS\<close>.  A distance
  with a length unit is used as given: the Cartesian components are that distance times the
  trigonometric factors.  A dimensionless distance that is not approximately \<open>1\<close> is used as
  given as well, with no replacement; the components computed from it are dimensionless,
  and their conversion to kilometres raises the units library's error.
\<close>

theorem hgs_to_hcc_unit_distance:
  assumes "spherical (data c) = (l, b, r)"
  shows "(q_unit r = One \<and> approx_one r \<longrightarrow>
            hgs_to_hcc rsun c f
              = hgs_to_hcc rsun (c\<lparr>data := SphericalRepresentation l b (RSUN_METERS rsun)\<rparr>) f)
     \<and> (is_length r \<and> observer f = Some (Observer b0 l0 D) \<longrightarrow>
          (\<exists>x y z. hgs_to_hcc rsun c f = Inr (realize_frame f (CartesianRepresentation x y z))
             \<and> metres x = metres r * cos (radians b) * sin (radians l - radians l0)
             \<and> metres y = metres r * (sin (radians b) * cos (radians b0)
                       - cos (radians b) * cos (radians l - radians l0) * sin (radians b0))
             \<and> metres z = metres r * (sin (radians b) * sin (radians b0)
                       + cos (radians b) * cos (radians l - radians l0) * cos (radians b0))))
     \<and> (q_unit r = One \<and> \<not> approx_one r \<and> observer f = Some (Observer b0 l0 D) \<longrightarrow>
          hgs_to_hcc rsun c f = Inl UnitConversionError)"
  using hgs_to_hcc_replaced [OF assms, of rsun f]
    hgs_to_hcc_length [OF assms, of f b0 l0 D rsun]
    hgs_to_hcc_dimensionless [OF assms, of f b0 l0 D rsun]
  by blast

theorem hgs_to_hcc_unit_distance_witness:
  "approx_one (Quantity 1 One)
   \<and> hgs_to_hcc 695700000
       \<lparr>obstime = None :: nat option, observer = None,
          data = UnitSphericalRepresentation (Angle 0 Deg) (Angle 0 Deg)\<rparr>
       (Heliocentric (Observer (Angle 0 Deg) (Angle 0 Deg) (Quantity 1 AU)))
     = hgs_to_hcc 695700000
       \<lparr>obstime = None :: nat option, observer = None,
          data = SphericalRepresentation (Angle 0 Deg) (Angle 0 Deg) (Quantity 695700000 M)\<rparr>
       (Heliocentric (Observer (Angle 0 Deg) (Angle 0 Deg) (Quantity 1 AU)))
   \<and> (\<exists>x y z. hgs_to_hcc 695700000
       \<lparr>obstime = None :: nat option, observer = None,
          data = SphericalRepresentation (Angle 0 Deg) (Angle 0 Deg) (Quantity 695700000 M)\<rparr>
       (Heliocentric (Observer (Angle 0 Deg) (Angle 0 Deg) (Quantity 1 AU)))
     = Inr (realize_frame
         (Heliocentric (Observer (Angle 0 Deg) (Angle 0 Deg) (Quantity 1 AU)) :: nat frame)
         (CartesianRepresentation x y z))
     \<and> metres x = 0 \<and> metres y = 0 \<and> metres z = 695700000)
   \<and> \<not> approx_one (Quantity 2 One)
   \<and> hgs_to_hcc 695700000
       \<lparr>obstime = None :: nat option, observer = None,
          data = SphericalRepresentation (Angle 0 Deg) (Angle 0 Deg) (Quantity 2 One)\<rparr>
       (Heliocentric (Observer (Angle 0 Deg) (Angle 0 Deg) (Quantity 1 AU)))
     = Inl UnitConversionError"
proof -
  let ?ob = "Observer (Angle 0 Deg) (Angle 0 Deg) (Quantity 1 AU)"
  let ?f = "Heliocentric ?ob :: nat frame"
  let ?c1 = "\<lparr>obstime = None :: nat option, observer = None,
          data = UnitSphericalRepresentation (Angle 0 Deg) (Angle 0 Deg)\<rparr>"
  let ?c2 = "\<lparr>obstime = None :: nat option, observer = None,
          data = SphericalRepresentation (Angle 0 Deg) (Angle 0 Deg) (Quantity 695700000 M)\<rparr>"
  let ?c3 = "\<lparr>obstime = None :: nat option, observer = None,
          data = SphericalRepresentation (Angle 0 Deg) (Angle 0 Deg) (Quantity 2 One)\<rparr>"
  have f: "observer ?f = Some ?ob"
    by (simp add: Heliocentric_def)
  have a1: "approx_one (Quantity 1 One)" and a3: "\<not> approx_one (Quantity 2 One)"
    by (simp_all add: approx_one_def q_allclose_def q_to_def rtol_def)
  have s1: "spherical (data ?c1) = (Angle 0 Deg, Angle 0 Deg, Quantity 1 One)"
    and s2: "spherical (data ?c2) = (Angle 0 Deg, Angle 0 Deg, Quantity 695700000 M)"
    and s3: "spherical (data ?c3) = (Angle 0 Deg, Angle 0 Deg, Quantity 2 One)"
    by simp_all
  have l2: "is_length (Quantity 695700000 M)"
    by (simp add: is_length_def)
  from hgs_to_hcc_unit_distance [OF s1, of 695700000 ?f] a1
  have r1: "hgs_to_hcc 695700000 ?c1 ?f = hgs_to_hcc 695700000 ?c2 ?f"
    by (simp add: RSUN_METERS_def)
  from hgs_to_hcc_unit_distance [OF s2, of 695700000 ?f "Angle 0 Deg" "Angle 0 Deg" "Quantity 1 AU"]
    l2 f
  have r2: "\<exists>x y z. hgs_to_hcc 695700000 ?c2 ?f
        = Inr (realize_frame ?f (CartesianRepresentation x y z))
      \<and> metres x = 0 \<and> metres y = 0 \<and> metres z = 695700000"
    by (simp add: radians_def)
  from hgs_to_hcc_unit_distance [OF s3, of 695700000 ?f "Angle 0 Deg" "Angle 0 Deg" "Quantity 1 AU"]
    a3 f
  have r3: "hgs_to_hcc 695700000 ?c3 ?f = Inl UnitConversionError"
    by simp
  from a1 a3 r1 r2 r3 show ?thesis
    by blast
qed

section \<open>The rotation between HCRS and Stonyhurst\<close>

lemma matrix_product_assoc:
  "matrix_product (matrix_product a b) c = matrix_product a (matrix_product b c)"
  by (cases a; cases b; cases c)
     (auto simp: matrix_product_def matrix_transpose_def dot_def algebra_simps)

lemma transpose_product:
  "matrix_transpose (matrix_product a b)
     = matrix_product (matrix_transpose b) (matrix_transpose a)"
  by (cases a; cases b)
     (auto simp: matrix_product_def matrix_transpose_def dot_def algebra_simps)

lemma transpose_transpose [simp]: "matrix_transpose (matrix_transpose m) = m"
  by (cases m) (auto simp: matrix_transpose_def)

lemma product_identity [simp]:
  "matrix_product identity3 a = a" "matrix_product a identity3 = a"
  by (cases a; auto simp: matrix_product_def matrix_transpose_def dot_def identity3_def)+

lemma orthonormal_product:
  assumes "orthonormal a" and "orthonormal b"
  shows "orthonormal (matrix_product a b)"
proof -
  have "matrix_product (matrix_transpose (matrix_product a b)) (matrix_product a b)
      = matrix_product (matrix_transpose b)
          (matrix_product (matrix_product (matrix_transpose a) a) b)"
    by (simp add: transpose_product matrix_product_assoc)
  also have "\<dots> = identity3"
    using assms by (simp add: orthonormal_def)
  finally show ?thesis
    by (simp add: orthonormal_def)
qed

lemma transform_product:
  "transform (transform v b) a = transform v (matrix_product a b)"
  by (cases a; cases b; cases v)
     (auto simp: matrix_product_def matrix_transpose_def transform_def dot_def algebra_simps)

lemma transform_identity [simp]: "transform v identity3 = v"
  by (cases v) (simp add: transform_def identity3_def dot_def)

lemma transform_vadd: "transform (vadd u v) m = vadd (transform u m) (transform v m)"
  by (cases m; cases u; cases v)
     (auto simp: transform_def vadd_def dot_def algebra_simps)

lemma transform_vneg: "transform (vneg v) m = vneg (transform v m)"
  by (cases m; cases v) (auto simp: transform_def vneg_def dot_def algebra_simps)

lemma vadd_vneg [simp]: "vadd (vadd u v) (vneg v) = u"
  by (cases u; cases v) (simp add: vadd_def vneg_def)

text \<open>
  The pair \<open>(M\<^sup>T, - M\<^sup>T off)\<close> undoes the pair \<open>(M, off)\<close> when \<open>M\<close> is orthonormal.
\<close>

lemma affine_inverse:
  assumes "orthonormal m"
  shows "apply_affine (matrix_transpose m) (transform (vneg off) (matrix_transpose m))
           (apply_affine m off v) = v"
proof -
  have "transform (transform v m) (matrix_transpose m) = v"
    using assms by (simp add: transform_product orthonormal_def)
  then show ?thesis
    by (simp add: apply_affine_def transform_vadd transform_vneg)
qed

lemma rodrigues_orthonormal:
  assumes "x\<^sup>2 + y\<^sup>2 + z\<^sup>2 = 1" and "c\<^sup>2 + s\<^sup>2 = 1"
  shows "orthonormal (rodrigues c s x y z)"
  unfolding orthonormal_def rodrigues_def matrix_product_def matrix_transpose_def dot_def
    identity3_def
  apply (simp only: prod.case prod.inject)
  using assms
  apply (intro conjI)
          apply algebra+
  done

lemma rodrigues_transpose_orthonormal:
  assumes "x\<^sup>2 + y\<^sup>2 + z\<^sup>2 = 1" and "c\<^sup>2 + s\<^sup>2 = 1"
  shows "orthonormal (matrix_transpose (rodrigues c s x y z))"
  unfolding orthonormal_def rodrigues_def matrix_product_def matrix_transpose_def dot_def
    identity3_def
  apply (simp only: prod.case prod.inject)
  using assms
  apply (intro conjI)
          apply algebra+
  done

lemma normalised_axis:
  assumes "(a1, a2, a3) \<noteq> (0, 0, 0)"
  shows "(a1 / sqrt (a1\<^sup>2 + a2\<^sup>2 + a3\<^sup>2))\<^sup>2 + (a2 / sqrt (a1\<^sup>2 + a2\<^sup>2 + a3\<^sup>2))\<^sup>2
       + (a3 / sqrt (a1\<^sup>2 + a2\<^sup>2 + a3\<^sup>2))\<^sup>2 = (1::real)"
proof -
  let ?q = "a1\<^sup>2 + a2\<^sup>2 + a3\<^sup>2"
  let ?n = "sqrt ?q"
  from assms have "a1 \<noteq> 0 \<or> a2 \<noteq> 0 \<or> a3 \<noteq> 0"
    by simp
  then have "0 < a1\<^sup>2 \<or> 0 < a2\<^sup>2 \<or> 0 < a3\<^sup>2"
    by simp
  moreover have "0 \<le> a1\<^sup>2" "0 \<le> a2\<^sup>2" "0 \<le> a3\<^sup>2"
    by simp_all
  ultimately have q: "0 < ?q"
    by linarith
  have "(a1 / ?n)\<^sup>2 + (a2 / ?n)\<^sup>2 + (a3 / ?n)\<^sup>2 = ?q / ?n\<^sup>2"
    by (simp only: power_divide add_divide_distrib)
  also have "?n\<^sup>2 = ?q"
    using q by simp
  also have "?q / ?q = 1"
    using q by simp
  finally show ?thesis .
qed

lemma astropy_rotation_matrix_orthonormal:
  assumes "axis \<noteq> (0, 0, 0)"
  shows "orthonormal (astropy_rotation_matrix angle axis)"
    and "orthonormal (matrix_transpose (astropy_rotation_matrix angle axis))"
proof -
  obtain a1 a2 a3 where axis: "axis = (a1, a2, a3)"
    by (cases axis) auto
  from assms have unit: "(a1 / sqrt (a1\<^sup>2 + a2\<^sup>2 + a3\<^sup>2))\<^sup>2
      + (a2 / sqrt (a1\<^sup>2 + a2\<^sup>2 + a3\<^sup>2))\<^sup>2 + (a3 / sqrt (a1\<^sup>2 + a2\<^sup>2 + a3\<^sup>2))\<^sup>2 = 1"
    unfolding axis by (rule normalised_axis)
  have cs: "(cos angle)\<^sup>2 + (sin angle)\<^sup>2 = 1"
    by simp
  have q: "dot axis axis = a1\<^sup>2 + a2\<^sup>2 + a3\<^sup>2"
    by (simp add: axis dot_def power2_eq_square)
  show "orthonormal (astropy_rotation_matrix angle axis)"
    using rodrigues_orthonormal [OF unit cs] q
    by (simp add: astropy_rotation_matrix_def axis Let_def)
  show "orthonormal (matrix_transpose (astropy_rotation_matrix angle axis))"
    using rodrigues_transpose_orthonormal [OF unit cs] q
    by (simp add: astropy_rotation_matrix_def axis Let_def)
qed

text \<open>The Sun's pole is not on the Z axis, so the de-tilt rotation has an axis.\<close>

lemma pole_axis_nonzero:
  "cross (to_cartesian SOLAR_NORTH_POLE_HCRS) (0, 0, 1) \<noteq> (0, 0, 0)"
proof -
  let ?b = "Angle (6387 / 100) Deg"
  let ?l = "Angle (28613 / 100) Deg"
  have "0 < radians ?b" "radians ?b < pi / 2"
    by (simp_all add: radians_def)
  then have cb: "0 < cos (radians ?b)"
    by (simp add: cos_gt_zero)
  have "cos (radians ?l) \<noteq> 0 \<or> sin (radians ?l) \<noteq> 0"
    using sin_zero_abs_cos_one [of "radians ?l"] by auto
  with cb show ?thesis
    by (auto simp: cross_def to_cartesian_def SOLAR_NORTH_POLE_HCRS_def np_cos_def np_sin_def
        a_to_def radians_def)
qed

lemma detilt_orthonormal:
  assumes "\<forall>angle axis. axis \<noteq> (0, 0, 0) \<longrightarrow> orthonormal (rotation_matrix angle axis)"
  shows "orthonormal (SUN_DETILT_MATRIX rotation_matrix)"
  unfolding SUN_DETILT_MATRIX_def make_rotation_matrix_from_reprs_def Let_def
  using assms pole_axis_nonzero by blast

lemma ebind_eq_Inr:
  "ebind m k = Inr r \<longleftrightarrow> (\<exists>v. m = Inr v \<and> k v = Inr r)"
  by (cases m) simp_all

lemma elements_nd_map [simp]: "elements (nd_map g x) = map g (elements x)"
  by (cases x) simp_all

lemma np_stack_simps [simp]:
  "np_stack [] = Inl (ValueError ''np.stack'')"
  "np_stack (x # xs) = Inr (Array (x # xs))"
  by (simp_all add: np_stack_def)

lemma np_stack_eq_Inr [simp]: "np_stack xs = Inr v \<longleftrightarrow> xs \<noteq> [] \<and> v = Array xs"
  by (auto simp: np_stack_def)

lemma hcrs_to_hgs_matrix:
  assumes "obstime hgsframe = Some t"
    and "hcrs_to_hgs rotation_matrix ephemeris hcrscoord hgsframe = Inr (mats, off)"
  shows "mats = nd_map (\<lambda>i. matrix_product
            (make_rotation_matrix_from_reprs rotation_matrix
               (case transform (vsub (ephemeris ''earth'' i) (ephemeris ''sun'' i))
                       (SUN_DETILT_MATRIX rotation_matrix) of
                  (v1, v2, v3) \<Rightarrow> (v1 * 1, v2 * 1, v3 * 0))
               (1, 0, 0))
            (SUN_DETILT_MATRIX rotation_matrix)) t"
proof (cases t)
  case (Scalar i)
  with assms show ?thesis
    by (auto simp: hcrs_to_hgs_def get_body_barycentric_def Let_def ebind_eq_Inr
        split: if_splits)
next
  case (Array ts)
  with assms show ?thesis
    by (auto simp: hcrs_to_hgs_def get_body_barycentric_def Let_def ebind_eq_Inr
        zip_map_map zip_same_conv_map comp_def split: if_splits)
qed

text \<open>
  Claim C4.  Numbers are real numbers here, so "within tolerance" is equality.  Assume of
  the library's \<^verbatim>\<open>rotation_matrix\<close> that it returns an orthonormal matrix for every axis
  other than the zero vector, and let the Sun-Earth direction be non-degenerate at every
  instant of the destination frame.  Then every matrix \<open>m\<close> that \<^verbatim>\<open>hcrs_to_hgs\<close> returns (one
  for a scalar instant, one per instant for an array) satisfies \<open>m\<^sup>T m = I\<close>.  The reverse
  function \<^verbatim>\<open>hgs_to_hcrs\<close>, called with the two arguments swapped, returns the transposed
  matrices together with the negated offsets rotated by them, computed from the result of
  the forward function; by orthonormality each such pair undoes the forward pair.
\<close>

theorem hcrs_hgs_rotation_orthonormal:
  assumes rm: "\<forall>angle axis. axis \<noteq> (0, 0, 0) \<longrightarrow> orthonormal (rotation_matrix angle axis)"
    and t: "obstime hgsframe = Some t"
    and nd: "\<forall>i \<in> set (elements t). nondegenerate rotation_matrix ephemeris i"
    and res: "hcrs_to_hgs rotation_matrix ephemeris hcrscoord hgsframe = Inr (mats, off)"
  shows "(\<forall>m \<in> set (elements mats). matrix_product (matrix_transpose m) m = identity3)
     \<and> hgs_to_hcrs rotation_matrix ephemeris hgsframe hcrscoord
         = ebind (nd_map2 transform (nd_map vneg off) (nd_map matrix_transpose mats))
             (\<lambda>reverse_offset. Inr (nd_map matrix_transpose mats, reverse_offset))
     \<and> (\<forall>m \<in> set (elements mats). \<forall>v p.
           apply_affine (matrix_transpose m) (transform (vneg v) (matrix_transpose m))
             (apply_affine m v p) = p)"
proof -
  let ?D = "SUN_DETILT_MATRIX rotation_matrix"
  have D: "orthonormal ?D"
    using rm by (rule detilt_orthonormal)
  have one: "orthonormal (matrix_product
            (make_rotation_matrix_from_reprs rotation_matrix
               (case transform (vsub (ephemeris ''earth'' i) (ephemeris ''sun'' i)) ?D of
                  (v1, v2, v3) \<Rightarrow> (v1 * 1, v2 * 1, v3 * 0))
               (1, 0, 0)) ?D)"
    if "i \<in> set (elements t)" for i
  proof -
    from nd that have "nondegenerate rotation_matrix ephemeris i"
      by blast
    then have "cross (case transform (vsub (ephemeris ''earth'' i) (ephemeris ''sun'' i)) ?D of
                  (v1, v2, v3) \<Rightarrow> (v1 * 1, v2 * 1, v3 * 0)) (1, 0, 0) \<noteq> (0, 0, 0)"
      by (simp add: nondegenerate_def split: prod.splits)
    with rm have "orthonormal (make_rotation_matrix_from_reprs rotation_matrix
               (case transform (vsub (ephemeris ''earth'' i) (ephemeris ''sun'' i)) ?D of
                  (v1, v2, v3) \<Rightarrow> (v1 * 1, v2 * 1, v3 * 0))
               (1, 0, 0))"
      unfolding make_rotation_matrix_from_reprs_def Let_def by blast
    then show ?thesis
      using D by (rule orthonormal_product)
  qed
  have orth: "\<forall>m \<in> set (elements mats). orthonormal m"
    using one by (auto simp: hcrs_to_hgs_matrix [OF t res])
  then have "\<forall>m \<in> set (elements mats). matrix_product (matrix_transpose m) m = identity3"
    by (simp add: orthonormal_def)
  moreover have "hgs_to_hcrs rotation_matrix ephemeris hgsframe hcrscoord
         = ebind (nd_map2 transform (nd_map vneg off) (nd_map matrix_transpose mats))
             (\<lambda>reverse_offset. Inr (nd_map matrix_transpose mats, reverse_offset))"
    using res by (simp add: hgs_to_hcrs_def Let_def)
  moreover have "\<forall>m \<in> set (elements mats). \<forall>v p.
           apply_affine (matrix_transpose m) (transform (vneg v) (matrix_transpose m))
             (apply_affine m v p) = p"
    using orth by (simp add: affine_inverse)
  ultimately show ?thesis
    by blast
qed

lemma example_nondegenerate: "nondegenerate astropy_rotation_matrix example_ephemeris i"
proof -
  let ?D = "SUN_DETILT_MATRIX astropy_rotation_matrix"
  have "orthonormal (matrix_transpose ?D)"
    unfolding SUN_DETILT_MATRIX_def make_rotation_matrix_from_reprs_def Let_def
    using pole_axis_nonzero by (rule astropy_rotation_matrix_orthonormal(2))
  then have "matrix_product ?D (matrix_transpose ?D) = identity3"
    by (simp add: orthonormal_def)
  then have "transform (transform (1, 1, 0) (matrix_transpose ?D)) ?D = (1, 1, 0)"
    by (simp add: transform_product)
  moreover have "vsub v (0, 0, 0) = v" for v
    by (cases v) (simp add: vsub_def)
  ultimately show ?thesis
    by (simp add: nondegenerate_def example_ephemeris_def cross_def)
qed

theorem hcrs_hgs_rotation_orthonormal_witness:
  "(\<exists>mats off.
     hcrs_to_hgs astropy_rotation_matrix example_ephemeris
       \<lparr>obstime = Some (Scalar 0), observer = None\<rparr>
       \<lparr>obstime = Some (Array [1, 2]), observer = None\<rparr> = Inr (mats, off)
     \<and> length (elements mats) = 2
     \<and> list_all (\<lambda>m. matrix_product (matrix_transpose m) m = identity3) (elements mats)
     \<and> off = Array [(0, 0, 0), (0, 0, 0)]
     \<and> hgs_to_hcrs astropy_rotation_matrix example_ephemeris
          \<lparr>obstime = Some (Array [1, 2]), observer = None\<rparr>
          \<lparr>obstime = Some (Scalar 0), observer = None\<rparr>
        = Inr (nd_map matrix_transpose mats, Array [(0, 0, 0), (0, 0, 0)]))
   \<and> (\<exists>m. hcrs_to_hgs astropy_rotation_matrix example_ephemeris
       \<lparr>obstime = Some (Scalar 1), observer = None\<rparr>
       \<lparr>obstime = Some (Scalar 1), observer = None\<rparr> = Inr (Scalar m, Scalar (0, 0, 0))
     \<and> matrix_product (matrix_transpose m) m = identity3
     \<and> hgs_to_hcrs astropy_rotation_matrix example_ephemeris
          \<lparr>obstime = Some (Scalar 1), observer = None\<rparr>
          \<lparr>obstime = Some (Scalar 1), observer = None\<rparr>
        = Inr (Scalar (matrix_transpose m), Scalar (0, 0, 0)))"
proof -
  let ?hcrs = "\<lparr>obstime = Some (Scalar (0::nat)), observer = None\<rparr>"
  let ?hgs = "\<lparr>obstime = Some (Array [1, 2::nat]), observer = None\<rparr>"
  let ?one = "\<lparr>obstime = Some (Scalar (1::nat)), observer = None\<rparr>"
  have rm: "\<forall>angle axis. axis \<noteq> (0, 0, 0) \<longrightarrow> orthonormal (astropy_rotation_matrix angle axis)"
    by (simp add: astropy_rotation_matrix_orthonormal)
  have nd: "\<forall>i \<in> set (elements t). nondegenerate astropy_rotation_matrix example_ephemeris i"
    for t :: "nat nd"
    by (simp add: example_nondegenerate)
  have z: "transform (vsub (0, 0, 0) (0, 0, 0)) m = (0, 0, 0)"
    "transform (vneg (0, 0, 0)) m = (0, 0, 0)" "transform (0, 0, 0) m = (0, 0, 0)" for m
    by (cases m; simp add: transform_def vsub_def vneg_def dot_def)+
  have t: "obstime ?hgs = Some (Array [1, 2])" "obstime ?one = Some (Scalar 1)"
    by simp_all
  obtain m1 m2 where
    res: "hcrs_to_hgs astropy_rotation_matrix example_ephemeris ?hcrs ?hgs
        = Inr (Array [m1, m2], Array [(0, 0, 0), (0, 0, 0)])"
    by (simp add: hcrs_to_hgs_def get_body_barycentric_def Let_def example_ephemeris_def z)
  note a = hcrs_hgs_rotation_orthonormal [OF rm t(1) nd res]
  from a have a1: "list_all (\<lambda>m. matrix_product (matrix_transpose m) m = identity3)
      (elements (Array [m1, m2]))"
    by simp
  from a
  have a2: "hgs_to_hcrs astropy_rotation_matrix example_ephemeris ?hgs ?hcrs
        = Inr (nd_map matrix_transpose (Array [m1, m2]), Array [(0, 0, 0), (0, 0, 0)])"
    by (simp add: z vneg_def)
  obtain m where
    res': "hcrs_to_hgs astropy_rotation_matrix example_ephemeris ?one ?one
        = Inr (Scalar m, Scalar (0, 0, 0))"
    by (simp add: hcrs_to_hgs_def get_body_barycentric_def Let_def example_ephemeris_def)
  note b = hcrs_hgs_rotation_orthonormal [OF rm t(2) nd res']
  from b have b1: "matrix_product (matrix_transpose m) m = identity3"
    by simp
  from b have b2: "hgs_to_hcrs astropy_rotation_matrix example_ephemeris ?one ?one
        = Inr (Scalar (matrix_transpose m), Scalar (0, 0, 0))"
    by (simp add: z)
  have len: "length (elements (Array [m1, m2])) = 2"
    by simp
  from res len a1 a2 res' b1 b2 show ?thesis
    by blast
qed

section \<open>Round trips\<close>

subsection \<open>What the functions return\<close>



lemma realize_frame_simps [simp]:
  "data (realize_frame f r) = r"
  "observer (realize_frame f r) = observer f"
  "obstime (realize_frame f r) = obstime f"
  by (simp_all add: realize_frame_def)






subsection \<open>The spherical coordinates of a vector\<close>




subsection \<open>Heliocentric and Stonyhurst axes\<close>

lemma stonyhurst_axes_inverse [simp]:
  "from_stonyhurst_axes b l (to_stonyhurst_axes b l v) = v"
  "to_stonyhurst_axes b l (from_stonyhurst_axes b l v) = v"
proof -
  obtain x y z where v: "v = (x, y, z)"
    by (cases v) auto
  have sc: "(sin t)\<^sup>2 + (cos t)\<^sup>2 = 1" for t :: real
    by simp
  show "from_stonyhurst_axes b l (to_stonyhurst_axes b l v) = v"
    unfolding v from_stonyhurst_axes_def to_stonyhurst_axes_def Let_def
    apply (simp only: prod.case prod.inject)
    using sc [of b] sc [of l]
    apply (intro conjI)
      apply algebra+
    done
  show "to_stonyhurst_axes b l (from_stonyhurst_axes b l v) = v"
    unfolding v from_stonyhurst_axes_def to_stonyhurst_axes_def Let_def
    apply (simp only: prod.case prod.inject)
    using sc [of b] sc [of l]
    apply (intro conjI)
      apply algebra+
    done
qed

lemma stonyhurst_axes_zero [simp]:
  "from_stonyhurst_axes b l (0, 0, 0) = (0, 0, 0)"
  "to_stonyhurst_axes b l (0, 0, 0) = (0, 0, 0)"
  by (simp_all add: from_stonyhurst_axes_def to_stonyhurst_axes_def)

lemma stonyhurst_axes_eq_zero:
  "from_stonyhurst_axes b l v = (0, 0, 0) \<longleftrightarrow> v = (0, 0, 0)"
  "to_stonyhurst_axes b l v = (0, 0, 0) \<longleftrightarrow> v = (0, 0, 0)"
proof -
  show "from_stonyhurst_axes b l v = (0, 0, 0) \<longleftrightarrow> v = (0, 0, 0)"
  proof
    assume "from_stonyhurst_axes b l v = (0, 0, 0)"
    then have "to_stonyhurst_axes b l (from_stonyhurst_axes b l v) = (0, 0, 0)"
      by (simp only: stonyhurst_axes_zero)
    then show "v = (0, 0, 0)"
      by simp
  qed simp
  show "to_stonyhurst_axes b l v = (0, 0, 0) \<longleftrightarrow> v = (0, 0, 0)"
  proof
    assume "to_stonyhurst_axes b l v = (0, 0, 0)"
    then have "from_stonyhurst_axes b l (to_stonyhurst_axes b l v) = (0, 0, 0)"
      by (simp only: stonyhurst_axes_zero)
    then show "v = (0, 0, 0)"
      by simp
  qed simp
qed




subsection \<open>Stonyhurst and Carrington\<close>




subsection \<open>Heliocentric and Stonyhurst\<close>





subsection \<open>The affine pair\<close>


lemma vneg_vneg [simp]: "vneg (vneg v) = v"
  by (cases v) (simp add: vneg_def)



subsection \<open>Heliocentric and helioprojective\<close>







subsection \<open>The round-trip property\<close>





end
